theory Spec2Isabelle
  imports Main "HOL-Library.Word"
begin

unbundle bit_operations_syntax

section \<open>The CANopen traffic dumper of \<^verbatim>\<open>src/dump.c\<close>\<close>

text \<open>
  A shallow embedding of \<^verbatim>\<open>src/dump.c\<close>. The globals \<^verbatim>\<open>options_\<close>, \<^verbatim>\<open>node_state_\<close>,
  \<^verbatim>\<open>current_time_\<close> and \<^verbatim>\<open>string_buffer_\<close> (an identifier cannot end in an underscore
  here: the fields are \<open>options_g\<close>, \<open>node_state_g\<close>, \<open>current_time_g\<close>, \<open>string_buffer_g\<close>) and the
  standard output stream are the fields of one state record that every decoder takes and
  returns. A decoder that dereferences a null pointer, reads outside the eight payload bytes
  of a frame or reaches \<^verbatim>\<open>abort()\<close> returns a fault instead of a state.
\<close>

subsection \<open>Machine types\<close>

type_synonym u8 = "8 word"
type_synonym u32 = "32 word"
type_synonym u64 = "64 word"

text \<open>\<^verbatim>\<open>size_t\<close> on the 64-bit Linux targets of the program.\<close>

type_synonym size_t = "64 word"

text \<open>
  \<^verbatim>\<open>struct can_frame\<close> of the Linux SocketCAN interface. The field \<open>data\<close> holds the
  bytes of the array \<^verbatim>\<open>data[8]\<close>.
\<close>

record can_frame =
  can_id :: u32
  can_dlc :: u8
  data :: "u8 list"

definition CAN_RTR_FLAG :: u32 where
  "CAN_RTR_FLAG = 0x40000000"

definition CAN_MAX_DLC :: u8 where
  "CAN_MAX_DLC = 8"

text \<open>The length of the array \<^verbatim>\<open>data\<close> of a frame.\<close>

definition CAN_MAX_DLEN :: nat where
  "CAN_MAX_DLEN = 8"

datatype canopen_object =
    CANOPEN_NMT | CANOPEN_SYNC | CANOPEN_TIMESTAMP | CANOPEN_EMCY
  | CANOPEN_TPDO1 | CANOPEN_TPDO2 | CANOPEN_TPDO3 | CANOPEN_TPDO4
  | CANOPEN_RPDO1 | CANOPEN_RPDO2 | CANOPEN_RPDO3 | CANOPEN_RPDO4
  | CANOPEN_TSDO | CANOPEN_RSDO | CANOPEN_HEARTBEAT | CANOPEN_UNSPEC

record canopen_msg =
  msg_object :: canopen_object
  msg_id :: int

subsection \<open>The headers that are not part of the sources\<close>

text \<open>
  \<^verbatim>\<open>dump.c\<close> includes headers of the repository that are not available: the option bits
  of \<^verbatim>\<open>canopen/dump.h\<close>, the frame accessors of \<^verbatim>\<open>canopen/sdo.h\<close>, \<^verbatim>\<open>canopen/nmt.h\<close>,
  \<^verbatim>\<open>canopen/heartbeat.h\<close> and \<^verbatim>\<open>canopen/emcy.h\<close>, the classifier of \<^verbatim>\<open>canopen.h\<close>
  and the lookup and formatting collaborators. Every constant and function of these
  headers that \<^verbatim>\<open>dump.c\<close> uses is a field of the record \<open>env\<close>, under its own name, and
  every decoder takes the record as its first argument. The general theorems are stated
  for every value of the record.
\<close>

record env =
  CO_DUMP_TIMESTAMP :: u32
  CO_DUMP_FILTER_NMT :: u32
  CO_DUMP_FILTER_SYNC :: u32
  CO_DUMP_FILTER_TIMESTAMP :: u32
  CO_DUMP_FILTER_EMCY :: u32
  CO_DUMP_FILTER_SDO :: u32
  CO_DUMP_FILTER_HEARTBEAT :: u32
  CO_DUMP_FILTER_MASK :: u32
  CO_DUMP_PDO_FILTER_SHIFT :: int
  canopen_get_object_type :: "can_frame \<Rightarrow> canopen_msg option"
  nmt_get_nodeid :: "can_frame \<Rightarrow> int"
  nmt_get_cs :: "can_frame \<Rightarrow> int"
  NMT_CS_START :: int
  NMT_CS_STOP :: int
  NMT_CS_ENTER_PREOPERATIONAL :: int
  NMT_CS_RESET_NODE :: int
  NMT_CS_RESET_COMMUNICATION :: int
  NMT_STATE_STOPPED :: int
  NMT_STATE_OPERATIONAL :: int
  NMT_STATE_PREOPERATIONAL :: int
  heartbeat_get_state :: "can_frame \<Rightarrow> int"
  heartbeat_is_bootup :: "can_frame \<Rightarrow> bool"
  emcy_get_code :: "can_frame \<Rightarrow> int"
  emcy_get_register :: "can_frame \<Rightarrow> int"
  emcy_get_manufacturer_error :: "can_frame \<Rightarrow> u64"
  error_code_to_string :: "int \<Rightarrow> u32 \<Rightarrow> string"
  SDO_EXPEDIATED_DATA_IDX :: int
  SDO_SEGMENT_IDX :: int
  SDO_MUX :: "int \<Rightarrow> int \<Rightarrow> u32"
  sdo_get_cs :: "can_frame \<Rightarrow> int"
  SDO_CCS_DL_INIT_REQ :: int
  SDO_CCS_DL_SEG_REQ :: int
  SDO_CCS_UL_INIT_REQ :: int
  SDO_CCS_UL_SEG_REQ :: int
  SDO_CCS_ABORT :: int
  SDO_SCS_DL_INIT_RES :: int
  SDO_SCS_DL_SEG_RES :: int
  SDO_SCS_UL_INIT_RES :: int
  SDO_SCS_UL_SEG_RES :: int
  SDO_SCS_ABORT :: int
  sdo_is_expediated :: "can_frame \<Rightarrow> bool"
  sdo_is_size_indicated :: "can_frame \<Rightarrow> bool"
  sdo_is_end_segment :: "can_frame \<Rightarrow> bool"
  sdo_get_index :: "can_frame \<Rightarrow> int"
  sdo_get_subindex :: "can_frame \<Rightarrow> int"
  sdo_get_indicated_size :: "can_frame \<Rightarrow> size_t"
  sdo_get_expediated_size :: "can_frame \<Rightarrow> size_t"
  sdo_get_abort_code :: "can_frame \<Rightarrow> u32"
  sdo_strerror :: "u32 \<Rightarrow> string"
  sdo_dict_type :: "u32 \<Rightarrow> int"
  CANOPEN_VISIBLE_STRING :: int
  hexdump :: "u8 list \<Rightarrow> string"
  byteorder2 :: "u32 \<Rightarrow> u8 list \<Rightarrow> u32"

subsection \<open>The output stream\<close>

text \<open>
  Every call of \<^verbatim>\<open>printf\<close> is recorded with its format string and the values passed to
  it, in the order of the calls.
\<close>

datatype arg = ArgInt int | ArgStr string | ArgChar char

datatype call = Printf string "arg list"

subsection \<open>Byte vectors\<close>

text \<open>
  Modelled from the spec: \<^verbatim>\<open>vector.h\<close> is not among the sources. The spec calls the
  accumulator a growable byte buffer that is reserved, cleared and appended to. A vector
  is its content (the first \<^verbatim>\<open>index\<close> bytes of \<^verbatim>\<open>data\<close>) and its reserved size.
\<close>

record vector =
  vec_data :: "u8 list"
  vec_size :: nat

definition vector_index :: "vector \<Rightarrow> nat" where
  "vector_index v = length (vec_data v)"

definition vector_init :: "nat \<Rightarrow> vector" where
  "vector_init n = \<lparr>vec_data = [], vec_size = n\<rparr>"

definition vector_reserve :: "vector \<Rightarrow> nat \<Rightarrow> vector" where
  "vector_reserve v n = v\<lparr>vec_size := max (vec_size v) n\<rparr>"

definition vector_clear :: "vector \<Rightarrow> vector" where
  "vector_clear v = v\<lparr>vec_data := []\<rparr>"

definition vector_append :: "vector \<Rightarrow> u8 list \<Rightarrow> vector" where
  "vector_append v bs =
     (vector_reserve v (vector_index v + length bs))\<lparr>vec_data := vec_data v @ bs\<rparr>"

definition vector_assign :: "vector \<Rightarrow> u8 list \<Rightarrow> vector" where
  "vector_assign v bs = vector_append (vector_clear v) bs"

subsection \<open>The state of the dumper\<close>

record node_state =
  current_mux :: u32
  sdo_data :: vector
  device_type :: u32

record dump_state =
  options_g :: u32
  node_state_g :: "nat \<Rightarrow> node_state"
  current_time_g :: u64
  string_buffer_g :: vector
  stdout :: "call list"

datatype fault = NullDeref | ReadOutsideFrame | Abort

text \<open>An assignment through a pointer to the entry \<open>i\<close> of \<^verbatim>\<open>node_state_\<close>.\<close>

definition upd_node :: "nat \<Rightarrow> (node_state \<Rightarrow> node_state) \<Rightarrow> dump_state \<Rightarrow> dump_state" where
  "upd_node i f st = st\<lparr>node_state_g := (node_state_g st)(i := f (node_state_g st i))\<rparr>"

text \<open>
  The \<open>n\<close> bytes at \<^verbatim>\<open>&cf->data[off]\<close>, when they lie within the array \<^verbatim>\<open>data\<close>.
\<close>

definition frame_bytes :: "can_frame \<Rightarrow> int \<Rightarrow> nat \<Rightarrow> u8 list option" where
  "frame_bytes cf off n =
     (if 0 \<le> off \<and> nat off + n \<le> CAN_MAX_DLEN then Some (take n (drop (nat off) (data cf)))
      else None)"

text \<open>The characters that \<^verbatim>\<open>%s\<close> prints for a buffer: those before the first zero byte.\<close>

definition c_str :: "u8 list \<Rightarrow> string" where
  "c_str bs = map (\<lambda>b. char_of (unat b)) (takeWhile (\<lambda>b. b \<noteq> 0) bs)"

definition MIN_c :: "'a::linorder \<Rightarrow> 'a \<Rightarrow> 'a" where
  "MIN_c a b = (if a < b then a else b)"

definition printf :: "string \<Rightarrow> arg list \<Rightarrow> dump_state \<Rightarrow> dump_state" where
  "printf fmt args st = st\<lparr>stdout := stdout st @ [Printf fmt args]\<rparr>"

definition printx :: "can_frame \<Rightarrow> string \<Rightarrow> arg list \<Rightarrow> dump_state \<Rightarrow> dump_state" where
  "printx cf fmt args st =
     printf (fmt @ ''%s\<newline>'')
       (args @ [ArgStr (if can_id cf AND CAN_RTR_FLAG \<noteq> 0 then '' [RTR]'' else [])]) st"

definition print_ts :: "env \<Rightarrow> dump_state \<Rightarrow> dump_state" where
  "print_ts E st =
     (let t = current_time_g st
      in if options_g st AND CO_DUMP_TIMESTAMP E \<noteq> 0
         then printf ''%llu.%06llu '' [ArgInt (uint (t div 1000000)), ArgInt (uint (t mod 1000000))] st
         else st)"

definition get_node_state :: "int \<Rightarrow> nat option" where
  "get_node_state nodeid = (if 0 < nodeid \<and> nodeid \<le> 127 then Some (nat (nodeid - 1)) else None)"

definition node_state_init :: "dump_state \<Rightarrow> dump_state" where
  "node_state_init st =
     st\<lparr>node_state_g := (\<lambda>i. if i < 127 then (node_state_g st i)\<lparr>sdo_data := vector_init 8\<rparr>
                               else node_state_g st i)\<rparr>"

subsection \<open>The decoders without node state\<close>

text \<open>Every decoder returns 0; the models return the state only.\<close>

definition nmt_cs_str :: "env \<Rightarrow> int \<Rightarrow> string" where
  "nmt_cs_str E cs =
     (if cs = NMT_CS_START E then ''start''
      else if cs = NMT_CS_STOP E then ''stop''
      else if cs = NMT_CS_ENTER_PREOPERATIONAL E then ''enter-preoperational''
      else if cs = NMT_CS_RESET_NODE E then ''reset-node''
      else if cs = NMT_CS_RESET_COMMUNICATION E then ''reset-communication''
      else ''unknown'')"

definition dump_nmt :: "env \<Rightarrow> can_frame \<Rightarrow> dump_state \<Rightarrow> dump_state" where
  "dump_nmt E cf st =
     (if options_g st AND CO_DUMP_FILTER_NMT E = 0 then st
      else let nodeid = nmt_get_nodeid E cf;
               cs = nmt_get_cs E cf;
               st1 = print_ts E st
           in if nodeid = 0 then printx cf ''NMT ALL %s'' [ArgStr (nmt_cs_str E cs)] st1
              else printx cf ''NMT %d %s'' [ArgInt nodeid, ArgStr (nmt_cs_str E cs)] st1)"

definition dump_sync :: "env \<Rightarrow> can_frame \<Rightarrow> dump_state \<Rightarrow> dump_state" where
  "dump_sync E cf st =
     (if options_g st AND CO_DUMP_FILTER_SYNC E = 0 then st
      else printx cf ''SYNC'' [] (print_ts E st))"

definition dump_timestamp :: "env \<Rightarrow> can_frame \<Rightarrow> dump_state \<Rightarrow> dump_state" where
  "dump_timestamp E cf st =
     (if options_g st AND CO_DUMP_FILTER_TIMESTAMP E = 0 then st
      else printx cf ''TIMESTAMP TODO'' [] (print_ts E st))"

text \<open>
  \<^verbatim>\<open>dump_emcy\<close> reads \<^verbatim>\<open>state->device_type\<close> without testing \<^verbatim>\<open>state\<close>.
\<close>

definition dump_emcy :: "env \<Rightarrow> canopen_msg \<Rightarrow> can_frame \<Rightarrow> dump_state \<Rightarrow> fault + dump_state" where
  "dump_emcy E msg cf st =
     (if options_g st AND CO_DUMP_FILTER_EMCY E = 0 then Inr st
      else let st1 = print_ts E st
           in if can_dlc cf = 0 then Inr (printx cf ''EMCY %d EMPTY'' [ArgInt (msg_id msg)] st1)
              else let state = get_node_state (msg_id msg);
                       code = emcy_get_code E cf;
                       register_v = emcy_get_register E cf;
                       manufacturer_error = emcy_get_manufacturer_error E cf
                   in case state of
                        None \<Rightarrow> Inl NullDeref
                      | Some i \<Rightarrow>
                          Inr (printx cf
                            (''EMCY %d code=%#x,register=%#x,manufacturer-error=%#llx,dlc=%d,''
                               @ ''text='' @ [CHR 0x22] @ ''%s'' @ [CHR 0x22])
                            [ArgInt (msg_id msg), ArgInt code, ArgInt register_v,
                             ArgInt (uint manufacturer_error), ArgInt (uint (can_dlc cf)),
                             ArgStr (error_code_to_string E code
                                       (device_type (node_state_g st1 i) AND 0xffff))]
                            st1))"

text \<open>
  \<^verbatim>\<open>options_ & (1 << (n + CO_DUMP_PDO_FILTER_SHIFT - 1))\<close>, read as a truth value; the
  callers pass \<open>n\<close> from 1 to 4.
\<close>

definition is_pdo_in_filter :: "env \<Rightarrow> int \<Rightarrow> dump_state \<Rightarrow> bool" where
  "is_pdo_in_filter E n st =
     (options_g st AND push_bit (nat (n + CO_DUMP_PDO_FILTER_SHIFT E - 1)) 1 \<noteq> 0)"

definition dump_pdo ::
  "env \<Rightarrow> char \<Rightarrow> int \<Rightarrow> canopen_msg \<Rightarrow> can_frame \<Rightarrow> dump_state \<Rightarrow> fault + dump_state" where
  "dump_pdo E type n msg cf st =
     (if \<not> is_pdo_in_filter E n st then Inr st
      else let st1 = print_ts E st
           in case frame_bytes cf 0 (unat (can_dlc cf)) of
                None \<Rightarrow> Inl ReadOutsideFrame
              | Some bs \<Rightarrow>
                  Inr (printx cf ''%cPDO%d %d length=%d,data=%s''
                        [ArgChar type, ArgInt n, ArgInt (msg_id msg), ArgInt (uint (can_dlc cf)),
                         ArgStr (hexdump E bs)] st1))"

definition state_str :: "env \<Rightarrow> int \<Rightarrow> string" where
  "state_str E state =
     (if state = NMT_STATE_STOPPED E then ''stopped''
      else if state = NMT_STATE_OPERATIONAL E then ''operational''
      else if state = NMT_STATE_PREOPERATIONAL E then ''pre-operational''
      else ''UNKNOWN'')"

definition dump_heartbeat :: "env \<Rightarrow> canopen_msg \<Rightarrow> can_frame \<Rightarrow> dump_state \<Rightarrow> dump_state" where
  "dump_heartbeat E msg cf st =
     (if options_g st AND CO_DUMP_FILTER_HEARTBEAT E = 0 then st
      else let state = heartbeat_get_state E cf;
               st1 = print_ts E st
           in if heartbeat_is_bootup E cf
              then printx cf ''HEARTBEAT %d bootup'' [ArgInt (msg_id msg)] st1
              else if state = 1 then printx cf ''HEARTBEAT %d poll'' [ArgInt (msg_id msg)] st1
              else printx cf ''HEARTBEAT %d state=%s''
                     [ArgInt (msg_id msg), ArgStr (state_str E state)] st1)"

subsection \<open>The SDO decoders\<close>

text \<open>
  \<^verbatim>\<open>cf->can_dlc - SDO_EXPEDIATED_DATA_IDX\<close> and \<^verbatim>\<open>cf->can_dlc - SDO_SEGMENT_IDX\<close> are
  computed in \<^verbatim>\<open>int\<close> and converted to \<^verbatim>\<open>size_t\<close> by the initialisation: a negative
  difference wraps around.
\<close>

definition to_size_t :: "int \<Rightarrow> size_t" where
  "to_size_t k = word_of_int k"

definition get_expediated_size :: "env \<Rightarrow> can_frame \<Rightarrow> size_t" where
  "get_expediated_size E cf =
     (let max_size = to_size_t (uint (can_dlc cf) - SDO_EXPEDIATED_DATA_IDX E)
      in if sdo_is_size_indicated E cf then MIN_c (sdo_get_expediated_size E cf) max_size
         else max_size)"

definition dump_sdo_dl_init_req ::
  "env \<Rightarrow> canopen_msg \<Rightarrow> can_frame \<Rightarrow> dump_state \<Rightarrow> fault + dump_state" where
  "dump_sdo_dl_init_req E msg cf st =
     (let state = get_node_state (msg_id msg);
          is_expediated = sdo_is_expediated E cf;
          is_size_indicated = sdo_is_size_indicated E cf;
          index = sdo_get_index E cf;
          subindex = sdo_get_subindex E cf;
          st1 = (case state of
                   Some i \<Rightarrow>
                     if \<not> is_expediated
                     then upd_node i (\<lambda>s. s\<lparr>current_mux := SDO_MUX E index subindex\<rparr>) st
                     else st
                 | None \<Rightarrow> st);
          st2 = print_ts E st1;
          st3 = printf ''RSDO %d init-download-%s index=%x,subindex=%d''
                  [ArgInt (msg_id msg),
                   ArgStr (if is_expediated then ''expediated'' else ''segment''),
                   ArgInt index, ArgInt subindex] st2
      in if \<not> is_expediated \<and> is_size_indicated \<and> can_dlc cf = CAN_MAX_DLC then
           let size = sdo_get_indicated_size E cf;
               st4 = printx cf '',size=%d'' [ArgInt (uint size)] st3
           in Inr (case state of
                     Some i \<Rightarrow>
                       upd_node i
                         (\<lambda>s. s\<lparr>sdo_data := vector_clear (vector_reserve (sdo_data s) (unat size))\<rparr>)
                         st4
                   | None \<Rightarrow> st4)
         else if is_expediated then
           let size = get_expediated_size E cf
           in case frame_bytes cf (SDO_EXPEDIATED_DATA_IDX E) (unat size) of
                None \<Rightarrow> Inl ReadOutsideFrame
              | Some bs \<Rightarrow>
                  Inr (printx cf '',size=%d,data=%s'' [ArgInt (uint size), ArgStr (hexdump E bs)] st3)
         else Inr st3)"

text \<open>
  \<^verbatim>\<open>make_string\<close> builds the quoted text in \<^verbatim>\<open>string_buffer_\<close>; the last append adds
  the quote and the terminating zero of the literal.
\<close>

definition make_string :: "u8 list \<Rightarrow> dump_state \<Rightarrow> string \<times> dump_state" where
  "make_string str st =
     (let sb1 = vector_assign (string_buffer_g st) [0x22];
          sb2 = vector_append sb1 str;
          sb3 = vector_append sb2 [0x22, 0]
      in (c_str (vec_data sb3), st\<lparr>string_buffer_g := sb3\<rparr>))"

definition get_segment_data ::
  "env \<Rightarrow> nat option \<Rightarrow> u8 list \<Rightarrow> dump_state \<Rightarrow> string \<times> dump_state" where
  "get_segment_data E state bs st =
     (if (case state of
            Some i \<Rightarrow> sdo_dict_type E (current_mux (node_state_g st i)) = CANOPEN_VISIBLE_STRING E
          | None \<Rightarrow> False)
      then make_string bs st
      else (hexdump E bs, st))"

text \<open>
  The part of \<^verbatim>\<open>dump_sdo_dl_seg_req\<close> and \<^verbatim>\<open>dump_sdo_ul_seg_res\<close> under
  \<^verbatim>\<open>if (state && is_end)\<close> that both share: the two assignments and the \<^verbatim>\<open>printf\<close>.
\<close>

definition print_final :: "env \<Rightarrow> nat \<Rightarrow> dump_state \<Rightarrow> dump_state" where
  "print_final E i st =
     (let final_data = vec_data (sdo_data (node_state_g st i));
          final_size = vector_index (sdo_data (node_state_g st i));
          (text, st1) = get_segment_data E (Some i) final_data st
      in printf '',final-size=%d,final-data=%s'' [ArgInt (int final_size), ArgStr text] st1)"

definition dump_sdo_dl_seg_req ::
  "env \<Rightarrow> canopen_msg \<Rightarrow> can_frame \<Rightarrow> dump_state \<Rightarrow> fault + dump_state" where
  "dump_sdo_dl_seg_req E msg cf st =
     (let state = get_node_state (msg_id msg);
          is_end = sdo_is_end_segment E cf;
          size = to_size_t (uint (can_dlc cf) - SDO_SEGMENT_IDX E)
      in case frame_bytes cf (SDO_SEGMENT_IDX E) (unat size) of
           None \<Rightarrow> Inl ReadOutsideFrame
         | Some bs \<Rightarrow>
             let st1 = (case state of
                          Some i \<Rightarrow> upd_node i (\<lambda>s. s\<lparr>sdo_data := vector_append (sdo_data s) bs\<rparr>) st
                        | None \<Rightarrow> st);
                 st2 = print_ts E st1;
                 (text, st3) = get_segment_data E state bs st2;
                 st4 = printf ''RSDO %d download-segment%s size=%d,data=%s''
                         [ArgInt (msg_id msg), ArgStr (if is_end then ''-end'' else []),
                          ArgInt (uint size), ArgStr text] st3;
                 st5 = (case state of
                          Some i \<Rightarrow>
                            if is_end
                            then upd_node i (\<lambda>s. s\<lparr>current_mux := 0\<rparr>) (print_final E i st4)
                            else st4
                        | None \<Rightarrow> st4)
             in Inr (printx cf [] [] st5))"

definition dump_sdo_ul_init_req :: "env \<Rightarrow> canopen_msg \<Rightarrow> can_frame \<Rightarrow> dump_state \<Rightarrow> dump_state" where
  "dump_sdo_ul_init_req E msg cf st =
     (let index = sdo_get_index E cf;
          subindex = sdo_get_subindex E cf
      in printx cf ''RSDO %d init-upload-segment index=%x,subindex=%d''
           [ArgInt (msg_id msg), ArgInt index, ArgInt subindex] (print_ts E st))"

definition dump_sdo_ul_seg_req :: "env \<Rightarrow> canopen_msg \<Rightarrow> can_frame \<Rightarrow> dump_state \<Rightarrow> dump_state" where
  "dump_sdo_ul_seg_req E msg cf st =
     printx cf ''RSDO %d upload-segment'' [ArgInt (msg_id msg)] (print_ts E st)"

definition dump_sdo_abort ::
  "env \<Rightarrow> char \<Rightarrow> canopen_msg \<Rightarrow> can_frame \<Rightarrow> dump_state \<Rightarrow> dump_state" where
  "dump_sdo_abort E type msg cf st =
     (let index = sdo_get_index E cf;
          subindex = sdo_get_subindex E cf;
          reason = sdo_strerror E (sdo_get_abort_code E cf)
      in printx cf (''%cSDO %d abort index=%x,subindex=%d,reason='' @ [CHR 0x22] @ ''%s'' @ [CHR 0x22])
           [ArgChar type, ArgInt (msg_id msg), ArgInt index, ArgInt subindex, ArgStr reason]
           (print_ts E st))"

definition dump_rsdo :: "env \<Rightarrow> canopen_msg \<Rightarrow> can_frame \<Rightarrow> dump_state \<Rightarrow> fault + dump_state" where
  "dump_rsdo E msg cf st =
     (if options_g st AND CO_DUMP_FILTER_SDO E = 0 then Inr st
      else let cs = sdo_get_cs E cf
           in if cs = SDO_CCS_DL_INIT_REQ E then dump_sdo_dl_init_req E msg cf st
              else if cs = SDO_CCS_DL_SEG_REQ E then dump_sdo_dl_seg_req E msg cf st
              else if cs = SDO_CCS_UL_INIT_REQ E then Inr (dump_sdo_ul_init_req E msg cf st)
              else if cs = SDO_CCS_UL_SEG_REQ E then Inr (dump_sdo_ul_seg_req E msg cf st)
              else if cs = SDO_CCS_ABORT E then Inr (dump_sdo_abort E CHR ''R'' msg cf st)
              else Inr (printx cf ''RSDO %d unknown-command-specifier'' [ArgInt (msg_id msg)]
                          (print_ts E st)))"

text \<open>
  In its expedited branch \<^verbatim>\<open>dump_sdo_ul_init_res\<close> passes \<^verbatim>\<open>&state->device_type\<close> to
  \<^verbatim>\<open>byteorder2\<close> without testing \<^verbatim>\<open>state\<close>.
\<close>

definition dump_sdo_ul_init_res ::
  "env \<Rightarrow> canopen_msg \<Rightarrow> can_frame \<Rightarrow> dump_state \<Rightarrow> fault + dump_state" where
  "dump_sdo_ul_init_res E msg cf st =
     (let state = get_node_state (msg_id msg);
          is_expediated = sdo_is_expediated E cf;
          is_size_indicated = sdo_is_size_indicated E cf;
          index = sdo_get_index E cf;
          subindex = sdo_get_subindex E cf;
          st1 = (case state of
                   Some i \<Rightarrow>
                     if \<not> is_expediated
                     then upd_node i (\<lambda>s. s\<lparr>current_mux := SDO_MUX E index subindex\<rparr>) st
                     else st
                 | None \<Rightarrow> st);
          st2 = print_ts E st1;
          st3 = printf ''TSDO %d init-upload-%s index=%x,subindex=%d''
                  [ArgInt (msg_id msg),
                   ArgStr (if is_expediated then ''expediated'' else ''segment''),
                   ArgInt index, ArgInt subindex] st2
      in if \<not> is_expediated \<and> is_size_indicated \<and> can_dlc cf = CAN_MAX_DLC then
           let size = sdo_get_indicated_size E cf;
               st4 = printx cf '',size=%d'' [ArgInt (uint size)] st3
           in Inr (case state of
                     Some i \<Rightarrow>
                       upd_node i
                         (\<lambda>s. s\<lparr>sdo_data := vector_clear (vector_reserve (sdo_data s) (unat size))\<rparr>)
                         st4
                   | None \<Rightarrow> st4)
         else if is_expediated then
           let size = get_expediated_size E cf;
               off = SDO_EXPEDIATED_DATA_IDX E;
               st4 = (if index = 0x1000 \<and> subindex = 0 then
                        case state of
                          None \<Rightarrow> Inl NullDeref
                        | Some i \<Rightarrow>
                            (case frame_bytes cf off (unat (MIN_c 4 size)) of
                               None \<Rightarrow> Inl ReadOutsideFrame
                             | Some src \<Rightarrow>
                                 Inr (upd_node i
                                        (\<lambda>s. s\<lparr>device_type := byteorder2 E (device_type s) src\<rparr>) st3))
                      else Inr st3)
           in case st4 of
                Inl f \<Rightarrow> Inl f
              | Inr st5 \<Rightarrow>
                  (case frame_bytes cf off (unat size) of
                     None \<Rightarrow> Inl ReadOutsideFrame
                   | Some bs \<Rightarrow>
                       Inr (printx cf '',size=%d,data=%s''
                              [ArgInt (uint size), ArgStr (hexdump E bs)] st5))
         else Inr st3)"

definition dump_sdo_ul_seg_res ::
  "env \<Rightarrow> canopen_msg \<Rightarrow> can_frame \<Rightarrow> dump_state \<Rightarrow> fault + dump_state" where
  "dump_sdo_ul_seg_res E msg cf st =
     (let state = get_node_state (msg_id msg);
          is_end = sdo_is_end_segment E cf;
          size = to_size_t (uint (can_dlc cf) - SDO_SEGMENT_IDX E)
      in case frame_bytes cf (SDO_SEGMENT_IDX E) (unat size) of
           None \<Rightarrow> Inl ReadOutsideFrame
         | Some bs \<Rightarrow>
             let st1 = (case state of
                          Some i \<Rightarrow> upd_node i (\<lambda>s. s\<lparr>sdo_data := vector_append (sdo_data s) bs\<rparr>) st
                        | None \<Rightarrow> st);
                 st2 = print_ts E st1;
                 (text, st3) = get_segment_data E state bs st2;
                 st4 = printf ''TSDO %d upload-segment%s size=%d,data=%s''
                         [ArgInt (msg_id msg), ArgStr (if is_end then ''-end'' else []),
                          ArgInt (uint size), ArgStr text] st3;
                 st5 = (case state of
                          Some i \<Rightarrow> if is_end then print_final E i st4 else st4
                        | None \<Rightarrow> st4)
             in Inr (printx cf [] [] st5))"

definition dump_sdo_dl_init_res :: "env \<Rightarrow> canopen_msg \<Rightarrow> can_frame \<Rightarrow> dump_state \<Rightarrow> dump_state" where
  "dump_sdo_dl_init_res E msg cf st =
     printx cf ''TSDO %d init-download-segment'' [ArgInt (msg_id msg)] (print_ts E st)"

definition dump_sdo_dl_seg_res :: "env \<Rightarrow> canopen_msg \<Rightarrow> can_frame \<Rightarrow> dump_state \<Rightarrow> dump_state" where
  "dump_sdo_dl_seg_res E msg cf st =
     (let is_end = sdo_is_end_segment E cf
      in printx cf ''TSDO %d download-segment%s''
           [ArgInt (msg_id msg), ArgStr (if is_end then ''-end'' else [])] (print_ts E st))"

definition dump_tsdo :: "env \<Rightarrow> canopen_msg \<Rightarrow> can_frame \<Rightarrow> dump_state \<Rightarrow> fault + dump_state" where
  "dump_tsdo E msg cf st =
     (if options_g st AND CO_DUMP_FILTER_SDO E = 0 then Inr st
      else let cs = sdo_get_cs E cf
           in if cs = SDO_SCS_DL_INIT_RES E then Inr (dump_sdo_dl_init_res E msg cf st)
              else if cs = SDO_SCS_DL_SEG_RES E then Inr (dump_sdo_dl_seg_res E msg cf st)
              else if cs = SDO_SCS_UL_INIT_RES E then dump_sdo_ul_init_res E msg cf st
              else if cs = SDO_SCS_UL_SEG_RES E then dump_sdo_ul_seg_res E msg cf st
              else if cs = SDO_SCS_ABORT E then Inr (dump_sdo_abort E CHR ''T'' msg cf st)
              else Inr (printx cf ''TSDO %d unknown-command-specifier'' [ArgInt (msg_id msg)]
                          (print_ts E st)))"

subsection \<open>Dispatch, the replay loop and the options\<close>

text \<open>
  \<^verbatim>\<open>multiplex\<close> returns -1 for a frame that the classifier rejects, and reaches
  \<^verbatim>\<open>abort()\<close> for an object that has no decoder.
\<close>

definition multiplex :: "env \<Rightarrow> can_frame \<Rightarrow> dump_state \<Rightarrow> fault + int \<times> dump_state" where
  "multiplex E cf st =
     (case canopen_get_object_type E cf of
        None \<Rightarrow> Inr (- 1, st)
      | Some msg \<Rightarrow>
          map_sum id (Pair 0)
            (case msg_object msg of
               CANOPEN_NMT \<Rightarrow> Inr (dump_nmt E cf st)
             | CANOPEN_SYNC \<Rightarrow> Inr (dump_sync E cf st)
             | CANOPEN_TIMESTAMP \<Rightarrow> Inr (dump_timestamp E cf st)
             | CANOPEN_EMCY \<Rightarrow> dump_emcy E msg cf st
             | CANOPEN_TPDO1 \<Rightarrow> dump_pdo E CHR ''T'' 1 msg cf st
             | CANOPEN_TPDO2 \<Rightarrow> dump_pdo E CHR ''T'' 2 msg cf st
             | CANOPEN_TPDO3 \<Rightarrow> dump_pdo E CHR ''T'' 3 msg cf st
             | CANOPEN_TPDO4 \<Rightarrow> dump_pdo E CHR ''T'' 4 msg cf st
             | CANOPEN_RPDO1 \<Rightarrow> dump_pdo E CHR ''R'' 1 msg cf st
             | CANOPEN_RPDO2 \<Rightarrow> dump_pdo E CHR ''R'' 2 msg cf st
             | CANOPEN_RPDO3 \<Rightarrow> dump_pdo E CHR ''R'' 3 msg cf st
             | CANOPEN_RPDO4 \<Rightarrow> dump_pdo E CHR ''R'' 4 msg cf st
             | CANOPEN_TSDO \<Rightarrow> dump_tsdo E msg cf st
             | CANOPEN_RSDO \<Rightarrow> dump_rsdo E msg cf st
             | CANOPEN_HEARTBEAT \<Rightarrow> Inr (dump_heartbeat E msg cf st)
             | CANOPEN_UNSPEC \<Rightarrow> Inl Abort))"

text \<open>
  The loop of \<^verbatim>\<open>dump_file\<close> over the records \<^verbatim>\<open>struct tb_frame\<close> of a trace, each a
  timestamp and a frame. The result of \<^verbatim>\<open>multiplex\<close> is ignored, as in the source.
\<close>

fun dump_records :: "env \<Rightarrow> (u64 \<times> can_frame) list \<Rightarrow> dump_state \<Rightarrow> fault + dump_state" where
  "dump_records E [] st = Inr st"
| "dump_records E ((timestamp, cf) # frames) st =
     (case multiplex E cf (st\<lparr>current_time_g := timestamp\<rparr>) of
        Inl f \<Rightarrow> Inl f
      | Inr (r, st1) \<Rightarrow> dump_records E frames st1)"

definition resolve_filters :: "env \<Rightarrow> u32 \<Rightarrow> dump_state \<Rightarrow> dump_state" where
  "resolve_filters E options st =
     (let st1 = st\<lparr>options_g := options_g st OR (options AND NOT (CO_DUMP_FILTER_MASK E))\<rparr>
      in st1\<lparr>options_g := options_g st1 OR
                (if options AND CO_DUMP_FILTER_MASK E \<noteq> 0 then options AND CO_DUMP_FILTER_MASK E
                 else CO_DUMP_FILTER_MASK E)\<rparr>)"

text \<open>
  The globals as the program starts, zero-initialised, and the first three statements of
  \<^verbatim>\<open>co_dump\<close>, which set up the state that the loops run on.
\<close>

definition static_state :: dump_state where
  "static_state =
     \<lparr>options_g = 0,
      node_state_g = (\<lambda>i. \<lparr>current_mux = 0, sdo_data = \<lparr>vec_data = [], vec_size = 0\<rparr>,
                            device_type = 0\<rparr>),
      current_time_g = 0,
      string_buffer_g = \<lparr>vec_data = [], vec_size = 0\<rparr>,
      stdout = []\<rparr>"

definition co_dump_init :: "env \<Rightarrow> u32 \<Rightarrow> dump_state" where
  "co_dump_init E options =
     resolve_filters E options
       (node_state_init (static_state\<lparr>string_buffer_g := vector_init 256\<rparr>))"

subsection \<open>An instance of the headers\<close>

text \<open>
  Modelled from the spec: the headers listed above are not among the sources, and the spec
  names their contents without giving values. The record \<open>cia301\<close> is one instance, used
  to run the decoders on concrete frames: the frame layout of CiA 301 (the CANopen
  application layer the spec refers to) for the accessors and the classifier, one option
  bit per service class in the order of the spec's list, the four PDO bits after the
  emergency bit, and plain stand-ins for the lookup and formatting collaborators.
\<close>

definition byte_at :: "can_frame \<Rightarrow> nat \<Rightarrow> u8" where
  "byte_at cf i = (if i < length (data cf) then data cf ! i else 0)"

definition le_bytes :: "u8 list \<Rightarrow> nat" where
  "le_bytes bs = foldr (\<lambda>b acc. unat b + 256 * acc) bs 0"

definition hex_digit :: "nat \<Rightarrow> char" where
  "hex_digit n = ''0123456789abcdef'' ! n"

definition hex_bytes :: "u8 list \<Rightarrow> string" where
  "hex_bytes bs = concat (map (\<lambda>b. [hex_digit (unat b div 16), hex_digit (unat b mod 16)]) bs)"

definition classify :: "can_frame \<Rightarrow> canopen_msg option" where
  "classify cf =
     (let fc = unat (drop_bit 7 (can_id cf) AND 0xF);
          nodeid = uint (can_id cf AND 0x7F);
          msg = (\<lambda>obj. Some \<lparr>msg_object = obj, msg_id = nodeid\<rparr>)
      in if fc = 0 then msg CANOPEN_NMT
         else if fc = 1 then (if nodeid = 0 then msg CANOPEN_SYNC else msg CANOPEN_EMCY)
         else if fc = 2 then msg CANOPEN_TIMESTAMP
         else if fc = 3 then msg CANOPEN_TPDO1
         else if fc = 4 then msg CANOPEN_RPDO1
         else if fc = 5 then msg CANOPEN_TPDO2
         else if fc = 6 then msg CANOPEN_RPDO2
         else if fc = 7 then msg CANOPEN_TPDO3
         else if fc = 8 then msg CANOPEN_RPDO3
         else if fc = 9 then msg CANOPEN_TPDO4
         else if fc = 10 then msg CANOPEN_RPDO4
         else if fc = 11 then msg CANOPEN_TSDO
         else if fc = 12 then msg CANOPEN_RSDO
         else if fc = 14 then msg CANOPEN_HEARTBEAT
         else None)"

definition cia301 :: env where
  "cia301 =
     \<lparr>CO_DUMP_TIMESTAMP = 0x800,
      CO_DUMP_FILTER_NMT = 0x2,
      CO_DUMP_FILTER_SYNC = 0x4,
      CO_DUMP_FILTER_TIMESTAMP = 0x8,
      CO_DUMP_FILTER_EMCY = 0x10,
      CO_DUMP_FILTER_SDO = 0x200,
      CO_DUMP_FILTER_HEARTBEAT = 0x400,
      CO_DUMP_FILTER_MASK = 0x7FE,
      CO_DUMP_PDO_FILTER_SHIFT = 5,
      canopen_get_object_type = classify,
      nmt_get_nodeid = (\<lambda>cf. uint (byte_at cf 1)),
      nmt_get_cs = (\<lambda>cf. uint (byte_at cf 0)),
      NMT_CS_START = 1,
      NMT_CS_STOP = 2,
      NMT_CS_ENTER_PREOPERATIONAL = 128,
      NMT_CS_RESET_NODE = 129,
      NMT_CS_RESET_COMMUNICATION = 130,
      NMT_STATE_STOPPED = 4,
      NMT_STATE_OPERATIONAL = 5,
      NMT_STATE_PREOPERATIONAL = 127,
      heartbeat_get_state = (\<lambda>cf. uint (byte_at cf 0 AND 0x7F)),
      heartbeat_is_bootup = (\<lambda>cf. byte_at cf 0 AND 0x7F = 0),
      emcy_get_code = (\<lambda>cf. int (le_bytes (take 2 (data cf)))),
      emcy_get_register = (\<lambda>cf. uint (byte_at cf 2)),
      emcy_get_manufacturer_error = (\<lambda>cf. of_nat (le_bytes (take 5 (drop 3 (data cf))))),
      error_code_to_string = (\<lambda>code device_type. ''Unknown''),
      SDO_EXPEDIATED_DATA_IDX = 4,
      SDO_SEGMENT_IDX = 1,
      SDO_MUX = (\<lambda>index subindex. word_of_int (index * 256 + subindex)),
      sdo_get_cs = (\<lambda>cf. uint (drop_bit 5 (byte_at cf 0))),
      SDO_CCS_DL_INIT_REQ = 1,
      SDO_CCS_DL_SEG_REQ = 0,
      SDO_CCS_UL_INIT_REQ = 2,
      SDO_CCS_UL_SEG_REQ = 3,
      SDO_CCS_ABORT = 4,
      SDO_SCS_DL_INIT_RES = 3,
      SDO_SCS_DL_SEG_RES = 1,
      SDO_SCS_UL_INIT_RES = 2,
      SDO_SCS_UL_SEG_RES = 0,
      SDO_SCS_ABORT = 4,
      sdo_is_expediated = (\<lambda>cf. byte_at cf 0 AND 2 \<noteq> 0),
      sdo_is_size_indicated = (\<lambda>cf. byte_at cf 0 AND 1 \<noteq> 0),
      sdo_is_end_segment = (\<lambda>cf. byte_at cf 0 AND 1 \<noteq> 0),
      sdo_get_index = (\<lambda>cf. int (le_bytes (take 2 (drop 1 (data cf))))),
      sdo_get_subindex = (\<lambda>cf. uint (byte_at cf 3)),
      sdo_get_indicated_size = (\<lambda>cf. of_nat (le_bytes (take 4 (drop 4 (data cf))))),
      sdo_get_expediated_size = (\<lambda>cf. 4 - ucast (drop_bit 2 (byte_at cf 0) AND 3)),
      sdo_get_abort_code = (\<lambda>cf. of_nat (le_bytes (take 4 (drop 4 (data cf))))),
      sdo_strerror = (\<lambda>code. ''Unknown''),
      sdo_dict_type = (\<lambda>mux. if mux = 0x100800 then 9 else 0),
      CANOPEN_VISIBLE_STRING = 9,
      hexdump = hex_bytes,
      byteorder2 = (\<lambda>dst src. of_nat (le_bytes src))\<rparr>"

text \<open>The state after \<^verbatim>\<open>co_dump\<close> has resolved the options 0: every class is shown.\<close>

definition st0 :: dump_state where
  "st0 = co_dump_init cia301 0"

subsection \<open>Frames for the examples\<close>

text \<open>
  Receive-SDO frames for node 5 and object 0x6000 subindex 1, in the layout of \<open>cia301\<close>:
  an expedited download without size indication carrying \<^verbatim>\<open>01 02 03 04\<close>, the same with
  two bytes declared, a frame of six bytes without size indication, and a frame of two
  bytes only.
\<close>

definition ex_dl_expedited :: can_frame where
  "ex_dl_expedited =
     \<lparr>can_id = 0x605, can_dlc = 8, data = [0x22, 0x00, 0x60, 0x01, 0x01, 0x02, 0x03, 0x04]\<rparr>"

definition ex_dl_expedited_sized :: can_frame where
  "ex_dl_expedited_sized =
     \<lparr>can_id = 0x605, can_dlc = 8, data = [0x2B, 0x00, 0x60, 0x01, 0x01, 0x02, 0x03, 0x04]\<rparr>"

definition ex_dl_expedited_six :: can_frame where
  "ex_dl_expedited_six =
     \<lparr>can_id = 0x605, can_dlc = 6, data = [0x22, 0x00, 0x60, 0x01, 0x01, 0x02, 0x00, 0x00]\<rparr>"

definition ex_dl_expedited_short :: can_frame where
  "ex_dl_expedited_short =
     \<lparr>can_id = 0x605, can_dlc = 2, data = [0x22, 0x00, 0x00, 0x00, 0x00, 0x00, 0x00, 0x00]\<rparr>"

text \<open>
  Initiates of a segmented download for the same object: without size indication, and
  declaring four bytes. Two download segments follow, of seven and of three payload bytes,
  the second with the end flag: ten bytes, more than the initiate declares.
\<close>

definition ex_dl_segment_init :: can_frame where
  "ex_dl_segment_init =
     \<lparr>can_id = 0x605, can_dlc = 8, data = [0x20, 0x00, 0x60, 0x01, 0x00, 0x00, 0x00, 0x00]\<rparr>"

definition ex_dl_segment_init_sized :: can_frame where
  "ex_dl_segment_init_sized =
     \<lparr>can_id = 0x605, can_dlc = 8, data = [0x21, 0x00, 0x60, 0x01, 0x04, 0x00, 0x00, 0x00]\<rparr>"

definition ex_dl_segment :: can_frame where
  "ex_dl_segment =
     \<lparr>can_id = 0x605, can_dlc = 8, data = [0x00, 0x11, 0x12, 0x13, 0x14, 0x15, 0x16, 0x17]\<rparr>"

definition ex_dl_segment_end :: can_frame where
  "ex_dl_segment_end =
     \<lparr>can_id = 0x605, can_dlc = 4, data = [0x19, 0x18, 0x19, 0x1A, 0x00, 0x00, 0x00, 0x00]\<rparr>"

text \<open>
  A transfer of ten bytes as an upload from node 5 of object 0x1008 subindex 0, which is a
  visible string in \<open>cia301\<close>: the initiate response declaring ten bytes, the initiate
  response without size indication, and two upload segments carrying the text
  \<^verbatim>\<open>CANopen io\<close>.
\<close>

definition ex_ul_segment_init_sized :: can_frame where
  "ex_ul_segment_init_sized =
     \<lparr>can_id = 0x585, can_dlc = 8, data = [0x41, 0x08, 0x10, 0x00, 0x0A, 0x00, 0x00, 0x00]\<rparr>"

definition ex_ul_segment_init :: can_frame where
  "ex_ul_segment_init =
     \<lparr>can_id = 0x585, can_dlc = 8, data = [0x40, 0x08, 0x10, 0x00, 0x00, 0x00, 0x00, 0x00]\<rparr>"

definition ex_ul_segment :: can_frame where
  "ex_ul_segment =
     \<lparr>can_id = 0x585, can_dlc = 8, data = [0x00, 0x43, 0x41, 0x4E, 0x6F, 0x70, 0x65, 0x6E]\<rparr>"

definition ex_ul_segment_end :: can_frame where
  "ex_ul_segment_end =
     \<lparr>can_id = 0x585, can_dlc = 4, data = [0x19, 0x20, 0x69, 0x6F, 0x00, 0x00, 0x00, 0x00]\<rparr>"

text \<open>
  A transmit-SDO frame with node id 0: the expedited upload response for the device type,
  object 0x1000 subindex 0. An emergency frame with a payload, and a heartbeat frame of
  node 5 with a given state byte.
\<close>

definition ex_ul_device_type_node0 :: can_frame where
  "ex_ul_device_type_node0 =
     \<lparr>can_id = 0x580, can_dlc = 8, data = [0x43, 0x00, 0x10, 0x00, 0x92, 0x01, 0x02, 0x00]\<rparr>"

definition ex_emcy :: can_frame where
  "ex_emcy =
     \<lparr>can_id = 0x08A, can_dlc = 8, data = [0x00, 0x10, 0x01, 0xAA, 0xBB, 0xCC, 0xCC, 0xCC]\<rparr>"

definition ex_heartbeat :: "u8 \<Rightarrow> can_frame" where
  "ex_heartbeat b = \<lparr>can_id = 0x705, can_dlc = 1, data = [b, 0, 0, 0, 0, 0, 0, 0]\<rparr>"

definition emcy0 :: canopen_msg where
  "emcy0 = \<lparr>msg_object = CANOPEN_EMCY, msg_id = 0\<rparr>"

text \<open>The two transfers as traces, and the download whose initiate does not declare a size.\<close>

definition ex_download :: "(u64 \<times> can_frame) list" where
  "ex_download =
     [(1000000, ex_dl_segment_init_sized), (1000100, ex_dl_segment), (1000200, ex_dl_segment_end)]"

definition ex_upload :: "(u64 \<times> can_frame) list" where
  "ex_upload =
     [(2000000, ex_ul_segment_init_sized), (2000100, ex_ul_segment), (2000200, ex_ul_segment_end)]"


definition rsdo5 :: canopen_msg where
  "rsdo5 = \<lparr>msg_object = CANOPEN_RSDO, msg_id = 5\<rparr>"

definition tsdo5 :: canopen_msg where
  "tsdo5 = \<lparr>msg_object = CANOPEN_TSDO, msg_id = 5\<rparr>"


text \<open>
  A state in which node 5 is in the middle of a transfer of object 0x1008 subindex 0: the
  multiplexer is set and the accumulator holds the first three bytes.
\<close>

definition st_open :: dump_state where
  "st_open =
     upd_node 4 (\<lambda>s. s\<lparr>current_mux := 0x100800,
                         sdo_data := vector_append (sdo_data s) [0x43, 0x41, 0x4E]\<rparr>) st0"

subsection \<open>Notions used in the statements\<close>

text \<open>
  The text that \<^verbatim>\<open>get_segment_data\<close> returns for a node with state, as a function of the
  multiplexer of the node: the rule that chooses between the quoted string and the hex
  dump.
\<close>

definition segment_text :: "env \<Rightarrow> u32 \<Rightarrow> u8 list \<Rightarrow> string" where
  "segment_text E mux bs =
     (if sdo_dict_type E mux = CANOPEN_VISIBLE_STRING E then c_str ([0x22] @ bs @ [0x22, 0])
      else hexdump E bs)"

text \<open>The payload slice of a segment frame: its bytes from the segment data offset onward.\<close>

definition segment_payload :: "env \<Rightarrow> can_frame \<Rightarrow> u8 list" where
  "segment_payload E cf =
     take (nat (uint (can_dlc cf) - SDO_SEGMENT_IDX E)) (drop (nat (SDO_SEGMENT_IDX E)) (data cf))"

text \<open>The projection of a result to a component of its state, keeping a fault.\<close>

definition on_state :: "(dump_state \<Rightarrow> 'a) \<Rightarrow> fault + dump_state \<Rightarrow> fault + 'a" where
  "on_state f r = map_sum id f r"

text \<open>
  The components of the entry \<open>i\<close> of \<^verbatim>\<open>node_state_\<close>: the content of the accumulator
  \<^verbatim>\<open>sdo_data\<close>, its reserved size, and the active multiplexer \<^verbatim>\<open>current_mux\<close>; and the
  last \<open>n\<close> calls of \<^verbatim>\<open>printf\<close>.
\<close>

definition accumulator :: "nat \<Rightarrow> dump_state \<Rightarrow> u8 list" where
  "accumulator i st = vec_data (sdo_data (node_state_g st i))"

definition reserved :: "nat \<Rightarrow> dump_state \<Rightarrow> nat" where
  "reserved i st = vec_size (sdo_data (node_state_g st i))"

definition active_mux :: "nat \<Rightarrow> dump_state \<Rightarrow> u32" where
  "active_mux i st = current_mux (node_state_g st i)"

definition last_calls :: "nat \<Rightarrow> dump_state \<Rightarrow> call list" where
  "last_calls n st = drop (length (stdout st) - n) (stdout st)"

text \<open>
  A segmented download for node \<open>n\<close> as a list of trace records: receive-SDO frames of the
  node, first a download initiate that is not expedited and declares the size in a frame
  of full length, then at least one download segment, each holding at least the bytes
  before the segment data offset and at most 8 bytes, the last one and no other with the
  end flag. A segmented upload is the same with transmit-SDO frames, an upload initiate
  response and upload segment responses.
\<close>

definition segmented_download :: "env \<Rightarrow> int \<Rightarrow> (u64 \<times> can_frame) list \<Rightarrow> bool" where
  "segmented_download E n recs =
     (case map snd recs of
        [] \<Rightarrow> False
      | init # segs \<Rightarrow>
          segs \<noteq> [] \<and>
          list_all (\<lambda>cf. canopen_get_object_type E cf
                           = Some \<lparr>msg_object = CANOPEN_RSDO, msg_id = n\<rparr>) (init # segs) \<and>
          sdo_get_cs E init = SDO_CCS_DL_INIT_REQ E \<and>
          \<not> sdo_is_expediated E init \<and> sdo_is_size_indicated E init \<and>
          can_dlc init = CAN_MAX_DLC \<and>
          list_all (\<lambda>cf. sdo_get_cs E cf = SDO_CCS_DL_SEG_REQ E \<and>
                          SDO_SEGMENT_IDX E \<le> uint (can_dlc cf) \<and> can_dlc cf \<le> CAN_MAX_DLC) segs \<and>
          list_all (\<lambda>cf. \<not> sdo_is_end_segment E cf) (butlast segs) \<and>
          sdo_is_end_segment E (last segs))"

definition segmented_upload :: "env \<Rightarrow> int \<Rightarrow> (u64 \<times> can_frame) list \<Rightarrow> bool" where
  "segmented_upload E n recs =
     (case map snd recs of
        [] \<Rightarrow> False
      | init # segs \<Rightarrow>
          segs \<noteq> [] \<and>
          list_all (\<lambda>cf. canopen_get_object_type E cf
                           = Some \<lparr>msg_object = CANOPEN_TSDO, msg_id = n\<rparr>) (init # segs) \<and>
          sdo_get_cs E init = SDO_SCS_UL_INIT_RES E \<and>
          \<not> sdo_is_expediated E init \<and> sdo_is_size_indicated E init \<and>
          can_dlc init = CAN_MAX_DLC \<and>
          list_all (\<lambda>cf. sdo_get_cs E cf = SDO_SCS_UL_SEG_RES E \<and>
                          SDO_SEGMENT_IDX E \<le> uint (can_dlc cf) \<and> can_dlc cf \<le> CAN_MAX_DLC) segs \<and>
          list_all (\<lambda>cf. \<not> sdo_is_end_segment E cf) (butlast segs) \<and>
          sdo_is_end_segment E (last segs))"

text \<open>
  The last two calls of \<^verbatim>\<open>printf\<close> of an end segment for a node with state: the final
  size and data, and the end of the line of \<^verbatim>\<open>printx(cf, "")\<close>.
\<close>

definition final_calls :: "env \<Rightarrow> can_frame \<Rightarrow> u32 \<Rightarrow> u8 list \<Rightarrow> call list" where
  "final_calls E cf mux bs =
     [Printf '',final-size=%d,final-data=%s''
        [ArgInt (int (length bs)), ArgStr (segment_text E mux bs)],
      Printf ''%s\<newline>'' [ArgStr (if can_id cf AND CAN_RTR_FLAG \<noteq> 0 then '' [RTR]'' else [])]]"

text \<open>The enumerators of \<^verbatim>\<open>enum sdo_ccs\<close> and of \<^verbatim>\<open>enum sdo_scs\<close> are distinct.\<close>

definition sdo_enums_distinct :: "env \<Rightarrow> bool" where
  "sdo_enums_distinct E =
     (distinct [SDO_CCS_DL_INIT_REQ E, SDO_CCS_DL_SEG_REQ E, SDO_CCS_UL_INIT_REQ E,
                SDO_CCS_UL_SEG_REQ E, SDO_CCS_ABORT E] \<and>
      distinct [SDO_SCS_DL_INIT_RES E, SDO_SCS_DL_SEG_RES E, SDO_SCS_UL_INIT_RES E,
                SDO_SCS_UL_SEG_RES E, SDO_SCS_ABORT E])"

section \<open>Properties\<close>

subsection \<open>The example state\<close>

lemma cia301_filters:
  "CO_DUMP_TIMESTAMP cia301 = 0x800"
  "CO_DUMP_FILTER_NMT cia301 = 0x2"
  "CO_DUMP_FILTER_SYNC cia301 = 0x4"
  "CO_DUMP_FILTER_TIMESTAMP cia301 = 0x8"
  "CO_DUMP_FILTER_EMCY cia301 = 0x10"
  "CO_DUMP_FILTER_SDO cia301 = 0x200"
  "CO_DUMP_FILTER_HEARTBEAT cia301 = 0x400"
  "CO_DUMP_FILTER_MASK cia301 = 0x7FE"
  "CO_DUMP_PDO_FILTER_SHIFT cia301 = 5"
  by (simp_all add: cia301_def)

lemma cia301_heartbeat:
  "heartbeat_get_state cia301 = (\<lambda>cf. uint (byte_at cf 0 AND 0x7F))"
  "heartbeat_is_bootup cia301 = (\<lambda>cf. byte_at cf 0 AND 0x7F = 0)"
  "NMT_STATE_STOPPED cia301 = 4"
  "NMT_STATE_OPERATIONAL cia301 = 5"
  "NMT_STATE_PREOPERATIONAL cia301 = 127"
  by (simp_all add: cia301_def)

lemma cia301_sdo:
  "SDO_EXPEDIATED_DATA_IDX cia301 = 4"
  "SDO_SEGMENT_IDX cia301 = 1"
  "SDO_MUX cia301 = (\<lambda>index subindex. word_of_int (index * 256 + subindex))"
  "sdo_get_cs cia301 = (\<lambda>cf. uint (drop_bit 5 (byte_at cf 0)))"
  "SDO_CCS_DL_INIT_REQ cia301 = 1"
  "SDO_CCS_DL_SEG_REQ cia301 = 0"
  "SDO_CCS_UL_INIT_REQ cia301 = 2"
  "SDO_CCS_UL_SEG_REQ cia301 = 3"
  "SDO_CCS_ABORT cia301 = 4"
  "SDO_SCS_DL_INIT_RES cia301 = 3"
  "SDO_SCS_DL_SEG_RES cia301 = 1"
  "SDO_SCS_UL_INIT_RES cia301 = 2"
  "SDO_SCS_UL_SEG_RES cia301 = 0"
  "SDO_SCS_ABORT cia301 = 4"
  "sdo_is_expediated cia301 = (\<lambda>cf. byte_at cf 0 AND 2 \<noteq> 0)"
  "sdo_is_size_indicated cia301 = (\<lambda>cf. byte_at cf 0 AND 1 \<noteq> 0)"
  "sdo_is_end_segment cia301 = (\<lambda>cf. byte_at cf 0 AND 1 \<noteq> 0)"
  "sdo_get_index cia301 = (\<lambda>cf. int (le_bytes (take 2 (drop 1 (data cf)))))"
  "sdo_get_subindex cia301 = (\<lambda>cf. uint (byte_at cf 3))"
  "sdo_get_indicated_size cia301 = (\<lambda>cf. of_nat (le_bytes (take 4 (drop 4 (data cf)))))"
  "sdo_get_expediated_size cia301 = (\<lambda>cf. 4 - ucast (drop_bit 2 (byte_at cf 0) AND 3))"
  "sdo_dict_type cia301 = (\<lambda>mux. if mux = 0x100800 then 9 else 0)"
  "CANOPEN_VISIBLE_STRING cia301 = 9"
  "hexdump cia301 = hex_bytes"
  "byteorder2 cia301 = (\<lambda>dst src. of_nat (le_bytes src))"
  "canopen_get_object_type cia301 = classify"
  by (simp_all add: cia301_def)

lemma options_st0: "options_g st0 = 0x7FE"
  by (simp add: st0_def co_dump_init_def resolve_filters_def node_state_init_def
      static_state_def cia301_filters)

lemma stdout_st0: "stdout st0 = []"
  by (simp add: st0_def co_dump_init_def resolve_filters_def node_state_init_def
      static_state_def)

lemma options_co_dump_init:
  "options_g (co_dump_init E options) =
     (options AND NOT (CO_DUMP_FILTER_MASK E)) OR
       (if options AND CO_DUMP_FILTER_MASK E \<noteq> 0 then options AND CO_DUMP_FILTER_MASK E
        else CO_DUMP_FILTER_MASK E)"
  by (simp add: co_dump_init_def resolve_filters_def node_state_init_def static_state_def)

subsection \<open>The size of an expedited transfer\<close>

lemma uint_to_size_t: "uint (to_size_t k) = k mod 2 ^ 64"
  by (simp add: to_size_t_def uint_word_of_int take_bit_eq_mod)

lemma max_size_exact:
  assumes "0 \<le> k" "k \<le> uint (d::u8)"
  shows "uint (to_size_t (uint d - k)) = uint d - k"
proof -
  have "uint d < 2 ^ 8" using uint_bounded [of d] by simp
  then have "uint d - k < 2 ^ 64" using assms by simp
  moreover have "0 \<le> uint d - k" using assms by simp
  ultimately have "(uint d - k) mod 2 ^ 64 = uint d - k" by (rule_tac mod_pos_pos_trivial)
  then show ?thesis by (simp only: uint_to_size_t)
qed

lemma max_size_wraps:
  assumes "uint (d::u8) < k" "k \<le> 2 ^ 64"
  shows "uint (to_size_t (uint d - k)) = 2 ^ 64 + uint d - k"
proof -
  have d: "0 \<le> uint d" by simp
  have "(uint d - k) mod 2 ^ 64 = (uint d - k + 2 ^ 64) mod 2 ^ 64" by simp
  also have "\<dots> = uint d - k + 2 ^ 64" using assms d by (intro mod_pos_pos_trivial) linarith+
  finally show ?thesis by (simp add: uint_to_size_t)
qed

lemma get_expediated_size_le_max:
  "uint (get_expediated_size E cf)
     \<le> uint (to_size_t (uint (can_dlc cf) - SDO_EXPEDIATED_DATA_IDX E))"
  by (auto simp: get_expediated_size_def Let_def MIN_c_def word_less_def)

lemma get_expediated_size_unsized:
  "\<not> sdo_is_size_indicated E cf \<Longrightarrow>
   get_expediated_size E cf = to_size_t (uint (can_dlc cf) - SDO_EXPEDIATED_DATA_IDX E)"
  by (simp add: get_expediated_size_def)

text \<open>
  C4, as amended. For an expedited initiate frame whose data length is at least the
  expedited-data offset, \<^verbatim>\<open>get_expediated_size\<close> decodes: without size indication, the
  data length minus the offset; with size indication and a full-length frame of 8 bytes,
  the declared size clamped to the bytes available after the offset.
\<close>

theorem get_expediated_size_decodes:
  "(\<not> sdo_is_size_indicated E cf \<and> 0 \<le> SDO_EXPEDIATED_DATA_IDX E \<and>
    SDO_EXPEDIATED_DATA_IDX E \<le> uint (can_dlc cf) \<longrightarrow>
      uint (get_expediated_size E cf) = uint (can_dlc cf) - SDO_EXPEDIATED_DATA_IDX E) \<and>
   (sdo_is_size_indicated E cf \<and> can_dlc cf = CAN_MAX_DLC \<and> 0 \<le> SDO_EXPEDIATED_DATA_IDX E \<and>
    SDO_EXPEDIATED_DATA_IDX E \<le> uint (can_dlc cf) \<longrightarrow>
      uint (get_expediated_size E cf) =
        min (uint (sdo_get_expediated_size E cf))
            (uint (can_dlc cf) - SDO_EXPEDIATED_DATA_IDX E))"
proof (intro conjI impI)
  assume "\<not> sdo_is_size_indicated E cf \<and> 0 \<le> SDO_EXPEDIATED_DATA_IDX E \<and>
    SDO_EXPEDIATED_DATA_IDX E \<le> uint (can_dlc cf)"
  then show "uint (get_expediated_size E cf) = uint (can_dlc cf) - SDO_EXPEDIATED_DATA_IDX E"
    by (simp add: get_expediated_size_unsized max_size_exact)
next
  assume a: "sdo_is_size_indicated E cf \<and> can_dlc cf = CAN_MAX_DLC \<and>
    0 \<le> SDO_EXPEDIATED_DATA_IDX E \<and> SDO_EXPEDIATED_DATA_IDX E \<le> uint (can_dlc cf)"
  from a have "0 \<le> SDO_EXPEDIATED_DATA_IDX E"
    and "SDO_EXPEDIATED_DATA_IDX E \<le> uint (can_dlc cf)"
    by blast+
  then have m: "uint (to_size_t (uint (can_dlc cf) - SDO_EXPEDIATED_DATA_IDX E))
      = uint (can_dlc cf) - SDO_EXPEDIATED_DATA_IDX E"
    by (rule max_size_exact)
  have g: "get_expediated_size E cf =
      MIN_c (sdo_get_expediated_size E cf)
        (to_size_t (uint (can_dlc cf) - SDO_EXPEDIATED_DATA_IDX E))"
    using a by (simp add: get_expediated_size_def)
  show "uint (get_expediated_size E cf) =
        min (uint (sdo_get_expediated_size E cf))
            (uint (can_dlc cf) - SDO_EXPEDIATED_DATA_IDX E)"
    unfolding g using m by (auto simp: MIN_c_def word_less_def min_def)
qed

theorem get_expediated_size_decodes_witness:
  "\<not> sdo_is_size_indicated cia301 ex_dl_expedited \<and>
   0 \<le> SDO_EXPEDIATED_DATA_IDX cia301 \<and>
   SDO_EXPEDIATED_DATA_IDX cia301 \<le> uint (can_dlc ex_dl_expedited) \<and>
   uint (get_expediated_size cia301 ex_dl_expedited) = 4 \<and>
   \<not> sdo_is_size_indicated cia301 ex_dl_expedited_six \<and>
   SDO_EXPEDIATED_DATA_IDX cia301 \<le> uint (can_dlc ex_dl_expedited_six) \<and>
   uint (get_expediated_size cia301 ex_dl_expedited_six) = 2 \<and>
   sdo_is_size_indicated cia301 ex_dl_expedited_sized \<and>
   can_dlc ex_dl_expedited_sized = CAN_MAX_DLC \<and>
   SDO_EXPEDIATED_DATA_IDX cia301 \<le> uint (can_dlc ex_dl_expedited_sized) \<and>
   uint (sdo_get_expediated_size cia301 ex_dl_expedited_sized) = 2 \<and>
   uint (get_expediated_size cia301 ex_dl_expedited_sized) = 2"
  using get_expediated_size_decodes [of cia301 ex_dl_expedited]
    get_expediated_size_decodes [of cia301 ex_dl_expedited_six]
    get_expediated_size_decodes [of cia301 ex_dl_expedited_sized]
  by (simp add: cia301_sdo ex_dl_expedited_def ex_dl_expedited_six_def
      ex_dl_expedited_sized_def byte_at_def CAN_MAX_DLC_def)

text \<open>
  The claim C4 as stated, for every expedited initiate frame, fails: the receive-SDO frame
  of two bytes is a download initiate, expedited and without size indication; its data
  length minus the offset is -2, the length decoded for it is \<open>2 ^ 64 - 2\<close>, and the
  decoder that passes this length to \<^verbatim>\<open>hexdump\<close> reads outside the frame.
\<close>

theorem get_expediated_size_decodes_counterexample:
  "sdo_get_cs cia301 ex_dl_expedited_short = SDO_CCS_DL_INIT_REQ cia301 \<and>
   sdo_is_expediated cia301 ex_dl_expedited_short \<and>
   \<not> sdo_is_size_indicated cia301 ex_dl_expedited_short \<and>
   uint (can_dlc ex_dl_expedited_short) - SDO_EXPEDIATED_DATA_IDX cia301 = - 2 \<and>
   uint (get_expediated_size cia301 ex_dl_expedited_short) = 18446744073709551614 \<and>
   uint (get_expediated_size cia301 ex_dl_expedited_short) \<noteq>
     uint (can_dlc ex_dl_expedited_short) - SDO_EXPEDIATED_DATA_IDX cia301 \<and>
   dump_rsdo cia301 rsdo5 ex_dl_expedited_short st0 = Inl ReadOutsideFrame"
proof -
  have f: "sdo_get_cs cia301 ex_dl_expedited_short = SDO_CCS_DL_INIT_REQ cia301"
    "sdo_is_expediated cia301 ex_dl_expedited_short"
    "\<not> sdo_is_size_indicated cia301 ex_dl_expedited_short"
    "uint (can_dlc ex_dl_expedited_short) - SDO_EXPEDIATED_DATA_IDX cia301 = - 2"
    by (simp_all add: cia301_sdo ex_dl_expedited_short_def byte_at_def)
  have "uint (can_dlc ex_dl_expedited_short) < SDO_EXPEDIATED_DATA_IDX cia301"
    "SDO_EXPEDIATED_DATA_IDX cia301 \<le> 2 ^ 64"
    by (simp_all add: cia301_sdo ex_dl_expedited_short_def)
  then have "uint (to_size_t (uint (can_dlc ex_dl_expedited_short) - SDO_EXPEDIATED_DATA_IDX cia301))
      = 2 ^ 64 + uint (can_dlc ex_dl_expedited_short) - SDO_EXPEDIATED_DATA_IDX cia301"
    by (rule max_size_wraps)
  then have u: "uint (get_expediated_size cia301 ex_dl_expedited_short) = 18446744073709551614"
    using f(3) by (simp add: get_expediated_size_unsized cia301_sdo ex_dl_expedited_short_def)
  have e: "options_g st0 AND CO_DUMP_FILTER_SDO cia301 \<noteq> 0"
    by (simp add: options_st0 cia301_filters)
  have "int (unat (get_expediated_size cia301 ex_dl_expedited_short))
      = uint (get_expediated_size cia301 ex_dl_expedited_short)"
    by simp
  then have "8 < unat (get_expediated_size cia301 ex_dl_expedited_short)" using u by linarith
  then have b: "frame_bytes ex_dl_expedited_short (SDO_EXPEDIATED_DATA_IDX cia301)
      (unat (get_expediated_size cia301 ex_dl_expedited_short)) = None"
    by (simp add: frame_bytes_def CAN_MAX_DLEN_def)
  have r: "dump_rsdo cia301 rsdo5 ex_dl_expedited_short st0 = Inl ReadOutsideFrame"
    using e f(1-3) b by (simp add: dump_rsdo_def dump_sdo_dl_init_req_def Let_def)
  show ?thesis using f u r by simp
qed

text \<open>
  C10. When the data length of a frame is at least the expedited-data offset, the size that
  \<^verbatim>\<open>get_expediated_size\<close> computes is at most the data length minus the offset, and for a
  data length of at most 8 the slice handed to \<^verbatim>\<open>hexdump\<close> lies within the 8 payload bytes
  of the frame. The precondition is needed: for a shorter frame without size indication
  the subtraction wraps around to \<open>2 ^ 64 + can_dlc - offset\<close>, and the slice leaves the
  frame.
\<close>

theorem get_expediated_size_within_frame:
  "(0 \<le> SDO_EXPEDIATED_DATA_IDX E \<and> SDO_EXPEDIATED_DATA_IDX E \<le> uint (can_dlc cf) \<longrightarrow>
      uint (get_expediated_size E cf) \<le> uint (can_dlc cf) - SDO_EXPEDIATED_DATA_IDX E) \<and>
   (0 \<le> SDO_EXPEDIATED_DATA_IDX E \<and> SDO_EXPEDIATED_DATA_IDX E \<le> uint (can_dlc cf) \<and>
    can_dlc cf \<le> CAN_MAX_DLC \<longrightarrow>
      frame_bytes cf (SDO_EXPEDIATED_DATA_IDX E) (unat (get_expediated_size E cf)) =
        Some (take (unat (get_expediated_size E cf))
                (drop (nat (SDO_EXPEDIATED_DATA_IDX E)) (data cf)))) \<and>
   (uint (can_dlc cf) < SDO_EXPEDIATED_DATA_IDX E \<and> SDO_EXPEDIATED_DATA_IDX E \<le> 8 \<and>
    \<not> sdo_is_size_indicated E cf \<longrightarrow>
      uint (get_expediated_size E cf) = 2 ^ 64 + uint (can_dlc cf) - SDO_EXPEDIATED_DATA_IDX E \<and>
      frame_bytes cf (SDO_EXPEDIATED_DATA_IDX E) (unat (get_expediated_size E cf)) = None)"
proof (intro conjI impI)
  assume a: "0 \<le> SDO_EXPEDIATED_DATA_IDX E \<and> SDO_EXPEDIATED_DATA_IDX E \<le> uint (can_dlc cf)"
  show "uint (get_expediated_size E cf) \<le> uint (can_dlc cf) - SDO_EXPEDIATED_DATA_IDX E"
    using get_expediated_size_le_max [of E cf] a by (simp add: max_size_exact)
next
  assume a: "0 \<le> SDO_EXPEDIATED_DATA_IDX E \<and> SDO_EXPEDIATED_DATA_IDX E \<le> uint (can_dlc cf) \<and>
    can_dlc cf \<le> CAN_MAX_DLC"
  have le: "uint (get_expediated_size E cf) \<le> uint (can_dlc cf) - SDO_EXPEDIATED_DATA_IDX E"
    using get_expediated_size_le_max [of E cf] a by (simp add: max_size_exact)
  have "uint (can_dlc cf) \<le> 8" using a by (simp add: CAN_MAX_DLC_def word_le_def)
  moreover have "int (unat (get_expediated_size E cf)) = uint (get_expediated_size E cf)"
    by simp
  ultimately have "nat (SDO_EXPEDIATED_DATA_IDX E) + unat (get_expediated_size E cf) \<le> 8"
    using le a by linarith
  with a show "frame_bytes cf (SDO_EXPEDIATED_DATA_IDX E) (unat (get_expediated_size E cf)) =
        Some (take (unat (get_expediated_size E cf))
                (drop (nat (SDO_EXPEDIATED_DATA_IDX E)) (data cf)))"
    by (simp add: frame_bytes_def CAN_MAX_DLEN_def)
next
  assume a: "uint (can_dlc cf) < SDO_EXPEDIATED_DATA_IDX E \<and> SDO_EXPEDIATED_DATA_IDX E \<le> 8 \<and>
    \<not> sdo_is_size_indicated E cf"
  have p: "(16::int) < 2 ^ 64" by simp
  then have k: "SDO_EXPEDIATED_DATA_IDX E \<le> 2 ^ 64" using a by linarith
  have g: "get_expediated_size E cf = to_size_t (uint (can_dlc cf) - SDO_EXPEDIATED_DATA_IDX E)"
    using a by (simp add: get_expediated_size_def)
  have u: "uint (get_expediated_size E cf)
      = 2 ^ 64 + uint (can_dlc cf) - SDO_EXPEDIATED_DATA_IDX E"
    unfolding g using a k by (intro max_size_wraps) auto
  then show "uint (get_expediated_size E cf)
      = 2 ^ 64 + uint (can_dlc cf) - SDO_EXPEDIATED_DATA_IDX E" .
  have "0 \<le> uint (can_dlc cf)" by simp
  then have "8 < uint (get_expediated_size E cf)" using u a p by linarith
  moreover have "int (unat (get_expediated_size E cf)) = uint (get_expediated_size E cf)"
    by simp
  ultimately have "8 < unat (get_expediated_size E cf)" by linarith
  then show "frame_bytes cf (SDO_EXPEDIATED_DATA_IDX E) (unat (get_expediated_size E cf)) = None"
    by (simp add: frame_bytes_def CAN_MAX_DLEN_def)
qed

theorem get_expediated_size_within_frame_witness:
  "0 \<le> SDO_EXPEDIATED_DATA_IDX cia301 \<and>
   SDO_EXPEDIATED_DATA_IDX cia301 \<le> uint (can_dlc ex_dl_expedited_sized) \<and>
   can_dlc ex_dl_expedited_sized \<le> CAN_MAX_DLC \<and>
   uint (get_expediated_size cia301 ex_dl_expedited_sized) \<le> 4 \<and>
   frame_bytes ex_dl_expedited_sized (SDO_EXPEDIATED_DATA_IDX cia301)
     (unat (get_expediated_size cia301 ex_dl_expedited_sized)) = Some [0x01, 0x02] \<and>
   uint (can_dlc ex_dl_expedited_short) < SDO_EXPEDIATED_DATA_IDX cia301 \<and>
   SDO_EXPEDIATED_DATA_IDX cia301 \<le> 8 \<and>
   \<not> sdo_is_size_indicated cia301 ex_dl_expedited_short \<and>
   uint (get_expediated_size cia301 ex_dl_expedited_short) = 18446744073709551614 \<and>
   frame_bytes ex_dl_expedited_short (SDO_EXPEDIATED_DATA_IDX cia301)
     (unat (get_expediated_size cia301 ex_dl_expedited_short)) = None"
proof -
  have s: "get_expediated_size cia301 ex_dl_expedited_sized = 2"
    by (simp add: get_expediated_size_def cia301_sdo ex_dl_expedited_sized_def byte_at_def
        MIN_c_def to_size_t_def)
  show ?thesis
    using get_expediated_size_within_frame [of cia301 ex_dl_expedited_sized]
      get_expediated_size_within_frame [of cia301 ex_dl_expedited_short]
    by (simp add: s) (simp add: cia301_sdo ex_dl_expedited_sized_def ex_dl_expedited_short_def
        byte_at_def CAN_MAX_DLC_def)
qed

subsection \<open>Option resolution\<close>

lemma resolve_filters_options:
  "options_g (resolve_filters E options st) =
     (options_g st OR (options AND NOT (CO_DUMP_FILTER_MASK E))) OR
       (if options AND CO_DUMP_FILTER_MASK E \<noteq> 0 then options AND CO_DUMP_FILTER_MASK E
        else CO_DUMP_FILTER_MASK E)"
  by (simp add: resolve_filters_def Let_def)

lemma mask_and_filter_all: "((x AND NOT m) OR m) AND f = f" if "f AND m = f" for x m f :: u32
proof -
  have "((x AND NOT m) OR m) AND (f AND m) = f AND m"
    by (auto simp: bit_and_iff bit_or_iff bit_not_iff bit_eq_iff)
  then show ?thesis by (simp only: that)
qed

lemma mask_and_filter_given: "((x AND NOT m) OR (x AND m)) AND f = x AND f" for x m f :: u32
  by (auto simp: bit_and_iff bit_or_iff bit_not_iff bit_eq_iff)

lemma mask_keeps_others: "((x AND NOT m) OR m) AND NOT m = x AND NOT m" for x m :: u32
  by (auto simp: bit_and_iff bit_or_iff bit_not_iff bit_eq_iff)

lemma mask_split: "((x AND NOT m) OR (x AND m)) = x" for x m :: u32
  by (auto simp: bit_and_iff bit_or_iff bit_not_iff bit_eq_iff)

text \<open>
  C8. \<^verbatim>\<open>resolve_filters\<close> on the options as the program starts (\<^verbatim>\<open>options_\<close> is 0): when
  no filter bit is set in the supplied options, every filter bit \<open>f\<close> of the mask is enabled;
  when at least one is set, the enabled filter bits are exactly the supplied ones; the bits
  outside the filter mask (timestamp, source mode) are carried over unchanged.
\<close>

theorem resolve_filters_default:
  assumes "options_g st = 0"
  shows "(options AND CO_DUMP_FILTER_MASK E = 0 \<and> f AND CO_DUMP_FILTER_MASK E = f \<longrightarrow>
            options_g (resolve_filters E options st) AND f = f) \<and>
         (options AND CO_DUMP_FILTER_MASK E \<noteq> 0 \<and> f AND CO_DUMP_FILTER_MASK E = f \<longrightarrow>
            options_g (resolve_filters E options st) AND f = options AND f) \<and>
         options_g (resolve_filters E options st) AND NOT (CO_DUMP_FILTER_MASK E) =
            options AND NOT (CO_DUMP_FILTER_MASK E)"
  using assms
  by (auto simp: resolve_filters_options mask_and_filter_all mask_and_filter_given
      mask_keeps_others mask_split)

theorem resolve_filters_default_witness:
  "options_g static_state = 0 \<and>
   (0 :: u32) AND CO_DUMP_FILTER_MASK cia301 = 0 \<and>
   CO_DUMP_FILTER_EMCY cia301 AND CO_DUMP_FILTER_MASK cia301 = CO_DUMP_FILTER_EMCY cia301 \<and>
   options_g (resolve_filters cia301 0 static_state) AND CO_DUMP_FILTER_EMCY cia301 =
     CO_DUMP_FILTER_EMCY cia301 \<and>
   (0xA00 :: u32) AND CO_DUMP_FILTER_MASK cia301 \<noteq> 0 \<and>
   options_g (resolve_filters cia301 0xA00 static_state) AND CO_DUMP_FILTER_EMCY cia301 = 0 \<and>
   options_g (resolve_filters cia301 0xA00 static_state) = 0xA00"
  using resolve_filters_default [of static_state 0 cia301 "CO_DUMP_FILTER_EMCY cia301"]
    resolve_filters_default [of static_state "0xA00" cia301 "CO_DUMP_FILTER_EMCY cia301"]
  by (simp add: static_state_def cia301_filters resolve_filters_def)

subsection \<open>Heartbeat\<close>

text \<open>
  C9. With the heartbeat class enabled, a header whose \<^verbatim>\<open>heartbeat_is_bootup\<close> recognises
  the state 0 and whose three NMT states are distinct: \<^verbatim>\<open>dump_heartbeat\<close> renders the
  state 0 as \<^verbatim>\<open>bootup\<close>, the state 1 as \<^verbatim>\<open>poll\<close>, and any other state through
  \<^verbatim>\<open>state_str\<close> as \<^verbatim>\<open>stopped\<close>, \<^verbatim>\<open>operational\<close> or \<^verbatim>\<open>pre-operational\<close> for the
  corresponding NMT state and as \<^verbatim>\<open>UNKNOWN\<close> for every other value.
\<close>

theorem dump_heartbeat_state:
  assumes "options_g st AND CO_DUMP_FILTER_HEARTBEAT E \<noteq> 0"
    and "heartbeat_is_bootup E cf \<longleftrightarrow> heartbeat_get_state E cf = 0"
    and "distinct [NMT_STATE_STOPPED E, NMT_STATE_OPERATIONAL E, NMT_STATE_PREOPERATIONAL E]"
  shows "(heartbeat_get_state E cf = 0 \<longrightarrow>
            dump_heartbeat E msg cf st =
              printx cf ''HEARTBEAT %d bootup'' [ArgInt (msg_id msg)] (print_ts E st)) \<and>
         (heartbeat_get_state E cf = 1 \<longrightarrow>
            dump_heartbeat E msg cf st =
              printx cf ''HEARTBEAT %d poll'' [ArgInt (msg_id msg)] (print_ts E st)) \<and>
         (heartbeat_get_state E cf \<notin> {0, 1} \<longrightarrow>
            dump_heartbeat E msg cf st =
              printx cf ''HEARTBEAT %d state=%s''
                [ArgInt (msg_id msg),
                 ArgStr (if heartbeat_get_state E cf = NMT_STATE_STOPPED E then ''stopped''
                         else if heartbeat_get_state E cf = NMT_STATE_OPERATIONAL E then ''operational''
                         else if heartbeat_get_state E cf = NMT_STATE_PREOPERATIONAL E
                         then ''pre-operational''
                         else ''UNKNOWN'')]
                (print_ts E st)) \<and>
         (heartbeat_get_state E cf \<notin>
            {NMT_STATE_STOPPED E, NMT_STATE_OPERATIONAL E, NMT_STATE_PREOPERATIONAL E} \<longrightarrow>
            state_str E (heartbeat_get_state E cf) = ''UNKNOWN'')"
  using assms by (simp add: dump_heartbeat_def state_str_def Let_def)

theorem dump_heartbeat_state_witness:
  "options_g st0 AND CO_DUMP_FILTER_HEARTBEAT cia301 \<noteq> 0 \<and>
   (heartbeat_is_bootup cia301 (ex_heartbeat 0) \<longleftrightarrow> heartbeat_get_state cia301 (ex_heartbeat 0) = 0) \<and>
   distinct [NMT_STATE_STOPPED cia301, NMT_STATE_OPERATIONAL cia301,
             NMT_STATE_PREOPERATIONAL cia301] \<and>
   heartbeat_get_state cia301 (ex_heartbeat 0) = 0 \<and>
   stdout (dump_heartbeat cia301 tsdo5 (ex_heartbeat 0) st0) =
     [Printf ''HEARTBEAT %d bootup%s\<newline>'' [ArgInt 5, ArgStr []]] \<and>
   heartbeat_get_state cia301 (ex_heartbeat 1) = 1 \<and>
   stdout (dump_heartbeat cia301 tsdo5 (ex_heartbeat 1) st0) =
     [Printf ''HEARTBEAT %d poll%s\<newline>'' [ArgInt 5, ArgStr []]] \<and>
   heartbeat_get_state cia301 (ex_heartbeat 5) \<notin> {0, 1} \<and>
   stdout (dump_heartbeat cia301 tsdo5 (ex_heartbeat 5) st0) =
     [Printf ''HEARTBEAT %d state=%s%s\<newline>'' [ArgInt 5, ArgStr ''operational'', ArgStr []]] \<and>
   heartbeat_get_state cia301 (ex_heartbeat 99) \<notin>
     {NMT_STATE_STOPPED cia301, NMT_STATE_OPERATIONAL cia301, NMT_STATE_PREOPERATIONAL cia301} \<and>
   stdout (dump_heartbeat cia301 tsdo5 (ex_heartbeat 99) st0) =
     [Printf ''HEARTBEAT %d state=%s%s\<newline>'' [ArgInt 5, ArgStr ''UNKNOWN'', ArgStr []]]"
  using dump_heartbeat_state [of st0 cia301 "ex_heartbeat 0" tsdo5]
    dump_heartbeat_state [of st0 cia301 "ex_heartbeat 1" tsdo5]
    dump_heartbeat_state [of st0 cia301 "ex_heartbeat 5" tsdo5]
    dump_heartbeat_state [of st0 cia301 "ex_heartbeat 99" tsdo5]
  by (simp add: options_st0 stdout_st0 cia301_filters cia301_heartbeat ex_heartbeat_def
      byte_at_def printx_def
      printf_def print_ts_def tsdo5_def CAN_RTR_FLAG_def)

subsection \<open>Disabled classes\<close>

text \<open>
  C7. A decoder whose class filter is disabled returns the state it was given: nothing is
  printed, and \<^verbatim>\<open>node_state_\<close> (multiplexer, accumulator and device type of every node)
  is as before.
\<close>

theorem disabled_filter_skips:
  "(options_g st AND CO_DUMP_FILTER_NMT E = 0 \<longrightarrow> dump_nmt E cf st = st) \<and>
   (options_g st AND CO_DUMP_FILTER_SYNC E = 0 \<longrightarrow> dump_sync E cf st = st) \<and>
   (options_g st AND CO_DUMP_FILTER_TIMESTAMP E = 0 \<longrightarrow> dump_timestamp E cf st = st) \<and>
   (options_g st AND CO_DUMP_FILTER_EMCY E = 0 \<longrightarrow> dump_emcy E msg cf st = Inr st) \<and>
   (\<not> is_pdo_in_filter E n st \<longrightarrow> dump_pdo E type n msg cf st = Inr st) \<and>
   (options_g st AND CO_DUMP_FILTER_SDO E = 0 \<longrightarrow>
      dump_rsdo E msg cf st = Inr st \<and> dump_tsdo E msg cf st = Inr st) \<and>
   (options_g st AND CO_DUMP_FILTER_HEARTBEAT E = 0 \<longrightarrow> dump_heartbeat E msg cf st = st)"
  by (simp add: dump_nmt_def dump_sync_def dump_timestamp_def dump_emcy_def dump_pdo_def
      dump_rsdo_def dump_tsdo_def dump_heartbeat_def)

theorem disabled_filter_skips_witness:
  "options_g (co_dump_init cia301 0x2) AND CO_DUMP_FILTER_SYNC cia301 = 0 \<and>
   options_g (co_dump_init cia301 0x2) AND CO_DUMP_FILTER_TIMESTAMP cia301 = 0 \<and>
   options_g (co_dump_init cia301 0x2) AND CO_DUMP_FILTER_EMCY cia301 = 0 \<and>
   \<not> is_pdo_in_filter cia301 1 (co_dump_init cia301 0x2) \<and>
   options_g (co_dump_init cia301 0x2) AND CO_DUMP_FILTER_SDO cia301 = 0 \<and>
   options_g (co_dump_init cia301 0x2) AND CO_DUMP_FILTER_HEARTBEAT cia301 = 0 \<and>
   options_g (co_dump_init cia301 0x4) AND CO_DUMP_FILTER_NMT cia301 = 0 \<and>
   dump_nmt cia301 ex_emcy (co_dump_init cia301 0x4) = co_dump_init cia301 0x4 \<and>
   dump_sync cia301 ex_emcy (co_dump_init cia301 0x2) = co_dump_init cia301 0x2 \<and>
   dump_timestamp cia301 ex_emcy (co_dump_init cia301 0x2) = co_dump_init cia301 0x2 \<and>
   dump_emcy cia301 tsdo5 ex_emcy (co_dump_init cia301 0x2) = Inr (co_dump_init cia301 0x2) \<and>
   dump_pdo cia301 CHR ''T'' 1 tsdo5 ex_emcy (co_dump_init cia301 0x2) =
     Inr (co_dump_init cia301 0x2) \<and>
   dump_rsdo cia301 rsdo5 ex_emcy (co_dump_init cia301 0x2) =
     Inr (co_dump_init cia301 0x2) \<and>
   dump_tsdo cia301 tsdo5 ex_emcy (co_dump_init cia301 0x2) =
     Inr (co_dump_init cia301 0x2) \<and>
   dump_heartbeat cia301 tsdo5 ex_emcy (co_dump_init cia301 0x2) =
     co_dump_init cia301 0x2"
proof -
  have a: "options_g (co_dump_init cia301 0x2) = 0x2"
    by (simp add: options_co_dump_init cia301_filters)
  have b: "options_g (co_dump_init cia301 0x4) = 0x4"
    by (simp add: options_co_dump_init cia301_filters)
  have c: "\<not> is_pdo_in_filter cia301 1 (co_dump_init cia301 0x2)"
    by (simp add: is_pdo_in_filter_def a cia301_filters)
  have h: "options_g (co_dump_init cia301 0x2) AND CO_DUMP_FILTER_SYNC cia301 = 0"
    "options_g (co_dump_init cia301 0x2) AND CO_DUMP_FILTER_TIMESTAMP cia301 = 0"
    "options_g (co_dump_init cia301 0x2) AND CO_DUMP_FILTER_EMCY cia301 = 0"
    "options_g (co_dump_init cia301 0x2) AND CO_DUMP_FILTER_SDO cia301 = 0"
    "options_g (co_dump_init cia301 0x2) AND CO_DUMP_FILTER_HEARTBEAT cia301 = 0"
    "options_g (co_dump_init cia301 0x4) AND CO_DUMP_FILTER_NMT cia301 = 0"
    by (simp_all add: a b cia301_filters)
  show ?thesis
    using disabled_filter_skips [of "co_dump_init cia301 0x2" cia301 ex_emcy tsdo5 1 "CHR ''T''"]
      disabled_filter_skips [of "co_dump_init cia301 0x2" cia301 ex_emcy rsdo5 1 "CHR ''T''"]
      disabled_filter_skips [of "co_dump_init cia301 0x4" cia301 ex_emcy tsdo5 1 "CHR ''T''"]
      h c
    by simp
qed

subsection \<open>Effects of the SDO decoders on the state\<close>

lemma printf_simps:
  "options_g (printf fmt args st) = options_g st"
  "node_state_g (printf fmt args st) = node_state_g st"
  "stdout (printf fmt args st) = stdout st @ [Printf fmt args]"
  by (simp_all add: printf_def)

lemma printx_simps:
  "options_g (printx cf fmt args st) = options_g st"
  "node_state_g (printx cf fmt args st) = node_state_g st"
  by (simp_all add: printx_def printf_simps)

lemma print_ts_simps:
  "options_g (print_ts E st) = options_g st"
  "node_state_g (print_ts E st) = node_state_g st"
  by (simp_all add: print_ts_def Let_def printf_simps)

lemma upd_node_simps:
  "options_g (upd_node i f st) = options_g st"
  "stdout (upd_node i f st) = stdout st"
  "node_state_g (upd_node i f st) i = f (node_state_g st i)"
  "j \<noteq> i \<Longrightarrow> node_state_g (upd_node i f st) j = node_state_g st j"
  by (simp_all add: upd_node_def)

lemma get_segment_data_simps:
  "fst (get_segment_data E (Some i) bs st) = segment_text E (current_mux (node_state_g st i)) bs"
  "options_g (snd (get_segment_data E state bs st)) = options_g st"
  "node_state_g (snd (get_segment_data E state bs st)) = node_state_g st"
  "stdout (snd (get_segment_data E state bs st)) = stdout st"
  by (simp_all add: get_segment_data_def make_string_def segment_text_def Let_def
      vector_assign_def vector_append_def vector_clear_def vector_reserve_def)

lemma print_final_simps:
  "options_g (print_final E i st) = options_g st"
  "node_state_g (print_final E i st) = node_state_g st"
  "stdout (print_final E i st) =
     stdout st @
       [Printf '',final-size=%d,final-data=%s''
          [ArgInt (int (length (vec_data (sdo_data (node_state_g st i))))),
           ArgStr (segment_text E (current_mux (node_state_g st i))
                     (vec_data (sdo_data (node_state_g st i))))]]"
  by (simp_all add: print_final_def Let_def case_prod_unfold printf_simps get_segment_data_simps
      vector_index_def)

lemma segment_size:
  assumes "0 \<le> k" "k \<le> uint (d::u8)"
  shows "unat (to_size_t (uint d - k)) = nat (uint d - k)"
proof -
  have "uint (to_size_t (uint d - k)) = uint d - k" using assms by (rule max_size_exact)
  moreover have "int (unat (to_size_t (uint d - k))) = uint (to_size_t (uint d - k))" by simp
  ultimately show ?thesis by linarith
qed

lemma frame_bytes_segment:
  assumes "0 \<le> SDO_SEGMENT_IDX E" "SDO_SEGMENT_IDX E \<le> uint (can_dlc cf)"
    "can_dlc cf \<le> CAN_MAX_DLC"
  shows "frame_bytes cf (SDO_SEGMENT_IDX E) (unat (to_size_t (uint (can_dlc cf) - SDO_SEGMENT_IDX E)))
           = Some (segment_payload E cf)"
proof -
  have "uint (can_dlc cf) \<le> 8" using assms by (simp add: CAN_MAX_DLC_def word_le_def)
  then show ?thesis using assms
    by (simp add: frame_bytes_def segment_size segment_payload_def CAN_MAX_DLEN_def)
qed

lemma stdout_printx:
  "stdout (printx cf fmt args st) =
     stdout st @ [Printf (fmt @ ''%s\<newline>'')
       (args @ [ArgStr (if can_id cf AND CAN_RTR_FLAG \<noteq> 0 then '' [RTR]'' else [])])]"
  by (simp add: printx_def printf_simps)

lemma print_ts_upd_node: "print_ts E (upd_node i f st) = upd_node i f (print_ts E st)"
  by (simp add: print_ts_def upd_node_def printf_def Let_def)

lemma uint_segment_size:
  assumes "0 \<le> k" "k \<le> uint (d::u8)"
  shows "uint (to_size_t (uint d - k)) = uint d - k"
  using assms by (rule max_size_exact)

lemma set_time_simps:
  "options_g (st\<lparr>current_time_g := t\<rparr>) = options_g st"
  "accumulator i (st\<lparr>current_time_g := t\<rparr>) = accumulator i st"
  "active_mux i (st\<lparr>current_time_g := t\<rparr>) = active_mux i st"
  by (simp_all add: accumulator_def active_mux_def)

lemma dump_records_append:
  "dump_records E (xs @ ys) st =
     (case dump_records E xs st of Inl f \<Rightarrow> Inl f | Inr st1 \<Rightarrow> dump_records E ys st1)"
  by (induction xs arbitrary: st) (auto split: sum.splits)

lemma dl_seg_step:
  assumes "get_node_state (msg_id msg) = Some i"
    and "0 \<le> SDO_SEGMENT_IDX E" and "SDO_SEGMENT_IDX E \<le> uint (can_dlc cf)"
    and "can_dlc cf \<le> CAN_MAX_DLC"
  shows "\<exists>st1. dump_sdo_dl_seg_req E msg cf st = Inr st1 \<and>
           options_g st1 = options_g st \<and>
           accumulator i st1 = accumulator i st @ segment_payload E cf \<and>
           (\<not> sdo_is_end_segment E cf \<longrightarrow> active_mux i st1 = active_mux i st) \<and>
           (sdo_is_end_segment E cf \<longrightarrow>
              last_calls 2 st1 =
                final_calls E cf (active_mux i st) (accumulator i st @ segment_payload E cf))"
  using assms
  by (simp add: dump_sdo_dl_seg_req_def Let_def
      frame_bytes_segment case_prod_unfold printf_simps printx_simps print_ts_simps
      upd_node_simps get_segment_data_simps print_final_simps stdout_printx
      vector_append_def vector_reserve_def print_ts_upd_node accumulator_def active_mux_def
      last_calls_def final_calls_def)

lemma ul_seg_step:
  assumes "get_node_state (msg_id msg) = Some i"
    and "0 \<le> SDO_SEGMENT_IDX E" and "SDO_SEGMENT_IDX E \<le> uint (can_dlc cf)"
    and "can_dlc cf \<le> CAN_MAX_DLC"
  shows "\<exists>st1. dump_sdo_ul_seg_res E msg cf st = Inr st1 \<and>
           options_g st1 = options_g st \<and>
           accumulator i st1 = accumulator i st @ segment_payload E cf \<and>
           active_mux i st1 = active_mux i st \<and>
           (sdo_is_end_segment E cf \<longrightarrow>
              last_calls 2 st1 =
                final_calls E cf (active_mux i st) (accumulator i st @ segment_payload E cf))"
  using assms
  by (simp add: dump_sdo_ul_seg_res_def Let_def
      frame_bytes_segment case_prod_unfold printf_simps printx_simps print_ts_simps
      upd_node_simps get_segment_data_simps print_final_simps stdout_printx
      vector_append_def vector_reserve_def print_ts_upd_node accumulator_def active_mux_def
      last_calls_def final_calls_def)

lemma dl_init_step:
  assumes "get_node_state (msg_id msg) = Some i"
    and "\<not> sdo_is_expediated E cf" and "sdo_is_size_indicated E cf"
    and "can_dlc cf = CAN_MAX_DLC"
  shows "\<exists>st1. dump_sdo_dl_init_req E msg cf st = Inr st1 \<and>
           options_g st1 = options_g st \<and>
           accumulator i st1 = [] \<and>
           unat (sdo_get_indicated_size E cf) \<le> reserved i st1 \<and>
           active_mux i st1 = SDO_MUX E (sdo_get_index E cf) (sdo_get_subindex E cf)"
  using assms
  by (simp add: dump_sdo_dl_init_req_def Let_def printf_simps printx_simps print_ts_simps
      upd_node_simps vector_clear_def vector_reserve_def print_ts_upd_node accumulator_def
      active_mux_def reserved_def)

lemma ul_init_step:
  assumes "get_node_state (msg_id msg) = Some i"
    and "\<not> sdo_is_expediated E cf" and "sdo_is_size_indicated E cf"
    and "can_dlc cf = CAN_MAX_DLC"
  shows "\<exists>st1. dump_sdo_ul_init_res E msg cf st = Inr st1 \<and>
           options_g st1 = options_g st \<and>
           accumulator i st1 = [] \<and>
           unat (sdo_get_indicated_size E cf) \<le> reserved i st1 \<and>
           active_mux i st1 = SDO_MUX E (sdo_get_index E cf) (sdo_get_subindex E cf)"
  using assms
  by (simp add: dump_sdo_ul_init_res_def Let_def printf_simps printx_simps print_ts_simps
      upd_node_simps vector_clear_def vector_reserve_def print_ts_upd_node accumulator_def
      active_mux_def reserved_def)

lemma multiplex_rsdo:
  "canopen_get_object_type E cf = Some \<lparr>msg_object = CANOPEN_RSDO, msg_id = n\<rparr> \<Longrightarrow>
   multiplex E cf st =
     map_sum id (Pair 0) (dump_rsdo E \<lparr>msg_object = CANOPEN_RSDO, msg_id = n\<rparr> cf st)"
  by (simp add: multiplex_def)

lemma multiplex_tsdo:
  "canopen_get_object_type E cf = Some \<lparr>msg_object = CANOPEN_TSDO, msg_id = n\<rparr> \<Longrightarrow>
   multiplex E cf st =
     map_sum id (Pair 0) (dump_tsdo E \<lparr>msg_object = CANOPEN_TSDO, msg_id = n\<rparr> cf st)"
  by (simp add: multiplex_def)

lemma dump_rsdo_dispatch:
  assumes "options_g st AND CO_DUMP_FILTER_SDO E \<noteq> 0" and "sdo_enums_distinct E"
  shows "sdo_get_cs E cf = SDO_CCS_DL_INIT_REQ E \<Longrightarrow>
           dump_rsdo E msg cf st = dump_sdo_dl_init_req E msg cf st"
    and "sdo_get_cs E cf = SDO_CCS_DL_SEG_REQ E \<Longrightarrow>
           dump_rsdo E msg cf st = dump_sdo_dl_seg_req E msg cf st"
  using assms by (auto simp: dump_rsdo_def sdo_enums_distinct_def)

lemma dump_tsdo_dispatch:
  assumes "options_g st AND CO_DUMP_FILTER_SDO E \<noteq> 0" and "sdo_enums_distinct E"
  shows "sdo_get_cs E cf = SDO_SCS_UL_INIT_RES E \<Longrightarrow>
           dump_tsdo E msg cf st = dump_sdo_ul_init_res E msg cf st"
    and "sdo_get_cs E cf = SDO_SCS_UL_SEG_RES E \<Longrightarrow>
           dump_tsdo E msg cf st = dump_sdo_ul_seg_res E msg cf st"
  using assms by (auto simp: dump_tsdo_def sdo_enums_distinct_def)

text \<open>One record of a trace that is a download segment of node \<open>n\<close>.\<close>

lemma dl_record_step:
  assumes node: "get_node_state n = Some i"
    and idx: "0 \<le> SDO_SEGMENT_IDX E" and dist: "sdo_enums_distinct E"
    and en: "options_g st AND CO_DUMP_FILTER_SDO E \<noteq> 0"
    and cls: "canopen_get_object_type E cf = Some \<lparr>msg_object = CANOPEN_RSDO, msg_id = n\<rparr>"
    and cs: "sdo_get_cs E cf = SDO_CCS_DL_SEG_REQ E"
    and len: "SDO_SEGMENT_IDX E \<le> uint (can_dlc cf)" "can_dlc cf \<le> CAN_MAX_DLC"
  shows "\<exists>st1. multiplex E cf (st\<lparr>current_time_g := t\<rparr>) = Inr (0, st1) \<and>
           options_g st1 = options_g st \<and>
           accumulator i st1 = accumulator i st @ segment_payload E cf \<and>
           (\<not> sdo_is_end_segment E cf \<longrightarrow> active_mux i st1 = active_mux i st) \<and>
           (sdo_is_end_segment E cf \<longrightarrow>
              last_calls 2 st1 =
                final_calls E cf (active_mux i st) (accumulator i st @ segment_payload E cf))"
proof -
  let ?msg = "\<lparr>msg_object = CANOPEN_RSDO, msg_id = n\<rparr>"
  let ?st = "st\<lparr>current_time_g := t\<rparr>"
  have en': "options_g ?st AND CO_DUMP_FILTER_SDO E \<noteq> 0" using en by simp
  have m: "multiplex E cf ?st = map_sum id (Pair 0) (dump_sdo_dl_seg_req E ?msg cf ?st)"
    using multiplex_rsdo [OF cls] dump_rsdo_dispatch(2) [OF en' dist cs] by simp
  have "get_node_state (msg_id ?msg) = Some i" using node by simp
  from dl_seg_step [OF this idx len, of ?st] obtain st1 where
    "dump_sdo_dl_seg_req E ?msg cf ?st = Inr st1"
    "options_g st1 = options_g ?st"
    "accumulator i st1 = accumulator i ?st @ segment_payload E cf"
    "\<not> sdo_is_end_segment E cf \<longrightarrow> active_mux i st1 = active_mux i ?st"
    "sdo_is_end_segment E cf \<longrightarrow>
       last_calls 2 st1 =
         final_calls E cf (active_mux i ?st) (accumulator i ?st @ segment_payload E cf)"
    by blast
  then show ?thesis using m by (simp add: set_time_simps)
qed

lemma ul_record_step:
  assumes node: "get_node_state n = Some i"
    and idx: "0 \<le> SDO_SEGMENT_IDX E" and dist: "sdo_enums_distinct E"
    and en: "options_g st AND CO_DUMP_FILTER_SDO E \<noteq> 0"
    and cls: "canopen_get_object_type E cf = Some \<lparr>msg_object = CANOPEN_TSDO, msg_id = n\<rparr>"
    and cs: "sdo_get_cs E cf = SDO_SCS_UL_SEG_RES E"
    and len: "SDO_SEGMENT_IDX E \<le> uint (can_dlc cf)" "can_dlc cf \<le> CAN_MAX_DLC"
  shows "\<exists>st1. multiplex E cf (st\<lparr>current_time_g := t\<rparr>) = Inr (0, st1) \<and>
           options_g st1 = options_g st \<and>
           accumulator i st1 = accumulator i st @ segment_payload E cf \<and>
           active_mux i st1 = active_mux i st \<and>
           (sdo_is_end_segment E cf \<longrightarrow>
              last_calls 2 st1 =
                final_calls E cf (active_mux i st) (accumulator i st @ segment_payload E cf))"
proof -
  let ?msg = "\<lparr>msg_object = CANOPEN_TSDO, msg_id = n\<rparr>"
  let ?st = "st\<lparr>current_time_g := t\<rparr>"
  have en': "options_g ?st AND CO_DUMP_FILTER_SDO E \<noteq> 0" using en by simp
  have m: "multiplex E cf ?st = map_sum id (Pair 0) (dump_sdo_ul_seg_res E ?msg cf ?st)"
    using multiplex_tsdo [OF cls] dump_tsdo_dispatch(2) [OF en' dist cs] by simp
  have "get_node_state (msg_id ?msg) = Some i" using node by simp
  from ul_seg_step [OF this idx len, of ?st] obtain st1 where
    "dump_sdo_ul_seg_res E ?msg cf ?st = Inr st1"
    "options_g st1 = options_g ?st"
    "accumulator i st1 = accumulator i ?st @ segment_payload E cf"
    "active_mux i st1 = active_mux i ?st"
    "sdo_is_end_segment E cf \<longrightarrow>
       last_calls 2 st1 =
         final_calls E cf (active_mux i ?st) (accumulator i ?st @ segment_payload E cf)"
    by blast
  then show ?thesis using m by (simp add: set_time_simps)
qed

text \<open>A run of segments without the end flag extends the accumulator by their payloads.\<close>

lemma dl_segments_run:
  assumes node: "get_node_state n = Some i"
    and idx: "0 \<le> SDO_SEGMENT_IDX E" and dist: "sdo_enums_distinct E"
  shows "options_g st AND CO_DUMP_FILTER_SDO E \<noteq> 0 \<Longrightarrow>
    \<forall>cf \<in> set (map snd recs).
      canopen_get_object_type E cf = Some \<lparr>msg_object = CANOPEN_RSDO, msg_id = n\<rparr> \<and>
      sdo_get_cs E cf = SDO_CCS_DL_SEG_REQ E \<and>
      SDO_SEGMENT_IDX E \<le> uint (can_dlc cf) \<and> can_dlc cf \<le> CAN_MAX_DLC \<and>
      \<not> sdo_is_end_segment E cf \<Longrightarrow>
    \<exists>st1. dump_records E recs st = Inr st1 \<and>
      options_g st1 = options_g st \<and>
      accumulator i st1 = accumulator i st @ concat (map (segment_payload E) (map snd recs)) \<and>
      active_mux i st1 = active_mux i st"
proof (induction recs arbitrary: st)
  case Nil
  then show ?case by simp
next
  case (Cons r recs)
  obtain t cf where r: "r = (t, cf)" by (cases r)
  from Cons.prems r have cf:
    "canopen_get_object_type E cf = Some \<lparr>msg_object = CANOPEN_RSDO, msg_id = n\<rparr>"
    "sdo_get_cs E cf = SDO_CCS_DL_SEG_REQ E"
    "SDO_SEGMENT_IDX E \<le> uint (can_dlc cf)" "can_dlc cf \<le> CAN_MAX_DLC"
    "\<not> sdo_is_end_segment E cf"
    by simp_all
  from dl_record_step [OF node idx dist Cons.prems(1) cf(1-4), of t] cf(5)
  obtain st1 where st1:
    "multiplex E cf (st\<lparr>current_time_g := t\<rparr>) = Inr (0, st1)"
    "options_g st1 = options_g st"
    "accumulator i st1 = accumulator i st @ segment_payload E cf"
    "active_mux i st1 = active_mux i st"
    by blast
  have "options_g st1 AND CO_DUMP_FILTER_SDO E \<noteq> 0" using st1(2) Cons.prems(1) by simp
  from Cons.IH [OF this] Cons.prems(2) obtain st2 where
    "dump_records E recs st1 = Inr st2"
    "options_g st2 = options_g st1"
    "accumulator i st2 = accumulator i st1 @ concat (map (segment_payload E) (map snd recs))"
    "active_mux i st2 = active_mux i st1"
    by auto
  then show ?case using st1 r by simp
qed

lemma ul_segments_run:
  assumes node: "get_node_state n = Some i"
    and idx: "0 \<le> SDO_SEGMENT_IDX E" and dist: "sdo_enums_distinct E"
  shows "options_g st AND CO_DUMP_FILTER_SDO E \<noteq> 0 \<Longrightarrow>
    \<forall>cf \<in> set (map snd recs).
      canopen_get_object_type E cf = Some \<lparr>msg_object = CANOPEN_TSDO, msg_id = n\<rparr> \<and>
      sdo_get_cs E cf = SDO_SCS_UL_SEG_RES E \<and>
      SDO_SEGMENT_IDX E \<le> uint (can_dlc cf) \<and> can_dlc cf \<le> CAN_MAX_DLC \<and>
      \<not> sdo_is_end_segment E cf \<Longrightarrow>
    \<exists>st1. dump_records E recs st = Inr st1 \<and>
      options_g st1 = options_g st \<and>
      accumulator i st1 = accumulator i st @ concat (map (segment_payload E) (map snd recs)) \<and>
      active_mux i st1 = active_mux i st"
proof (induction recs arbitrary: st)
  case Nil
  then show ?case by simp
next
  case (Cons r recs)
  obtain t cf where r: "r = (t, cf)" by (cases r)
  from Cons.prems r have cf:
    "canopen_get_object_type E cf = Some \<lparr>msg_object = CANOPEN_TSDO, msg_id = n\<rparr>"
    "sdo_get_cs E cf = SDO_SCS_UL_SEG_RES E"
    "SDO_SEGMENT_IDX E \<le> uint (can_dlc cf)" "can_dlc cf \<le> CAN_MAX_DLC"
    "\<not> sdo_is_end_segment E cf"
    by simp_all
  from ul_record_step [OF node idx dist Cons.prems(1) cf(1-4), of t]
  obtain st1 where st1:
    "multiplex E cf (st\<lparr>current_time_g := t\<rparr>) = Inr (0, st1)"
    "options_g st1 = options_g st"
    "accumulator i st1 = accumulator i st @ segment_payload E cf"
    "active_mux i st1 = active_mux i st"
    by blast
  have "options_g st1 AND CO_DUMP_FILTER_SDO E \<noteq> 0" using st1(2) Cons.prems(1) by simp
  from Cons.IH [OF this] Cons.prems(2) obtain st2 where
    "dump_records E recs st1 = Inr st2"
    "options_g st2 = options_g st1"
    "accumulator i st2 = accumulator i st1 @ concat (map (segment_payload E) (map snd recs))"
    "active_mux i st2 = active_mux i st1"
    by auto
  then show ?case using st1 r by simp
qed

lemma dl_init_record_step:
  assumes node: "get_node_state n = Some i" and dist: "sdo_enums_distinct E"
    and en: "options_g st AND CO_DUMP_FILTER_SDO E \<noteq> 0"
    and cls: "canopen_get_object_type E cf = Some \<lparr>msg_object = CANOPEN_RSDO, msg_id = n\<rparr>"
    and cs: "sdo_get_cs E cf = SDO_CCS_DL_INIT_REQ E"
    and init: "\<not> sdo_is_expediated E cf" "sdo_is_size_indicated E cf" "can_dlc cf = CAN_MAX_DLC"
  shows "\<exists>st1. multiplex E cf (st\<lparr>current_time_g := t\<rparr>) = Inr (0, st1) \<and>
           options_g st1 = options_g st \<and> accumulator i st1 = [] \<and>
           active_mux i st1 = SDO_MUX E (sdo_get_index E cf) (sdo_get_subindex E cf)"
proof -
  let ?msg = "\<lparr>msg_object = CANOPEN_RSDO, msg_id = n\<rparr>"
  let ?st = "st\<lparr>current_time_g := t\<rparr>"
  have en': "options_g ?st AND CO_DUMP_FILTER_SDO E \<noteq> 0" using en by simp
  have m: "multiplex E cf ?st = map_sum id (Pair 0) (dump_sdo_dl_init_req E ?msg cf ?st)"
    using multiplex_rsdo [OF cls] dump_rsdo_dispatch(1) [OF en' dist cs] by simp
  have "get_node_state (msg_id ?msg) = Some i" using node by simp
  from dl_init_step [OF this init, of ?st] obtain st1 where
    "dump_sdo_dl_init_req E ?msg cf ?st = Inr st1"
    "options_g st1 = options_g ?st" "accumulator i st1 = []"
    "active_mux i st1 = SDO_MUX E (sdo_get_index E cf) (sdo_get_subindex E cf)"
    by blast
  then show ?thesis using m by simp
qed

lemma ul_init_record_step:
  assumes node: "get_node_state n = Some i" and dist: "sdo_enums_distinct E"
    and en: "options_g st AND CO_DUMP_FILTER_SDO E \<noteq> 0"
    and cls: "canopen_get_object_type E cf = Some \<lparr>msg_object = CANOPEN_TSDO, msg_id = n\<rparr>"
    and cs: "sdo_get_cs E cf = SDO_SCS_UL_INIT_RES E"
    and init: "\<not> sdo_is_expediated E cf" "sdo_is_size_indicated E cf" "can_dlc cf = CAN_MAX_DLC"
  shows "\<exists>st1. multiplex E cf (st\<lparr>current_time_g := t\<rparr>) = Inr (0, st1) \<and>
           options_g st1 = options_g st \<and> accumulator i st1 = [] \<and>
           active_mux i st1 = SDO_MUX E (sdo_get_index E cf) (sdo_get_subindex E cf)"
proof -
  let ?msg = "\<lparr>msg_object = CANOPEN_TSDO, msg_id = n\<rparr>"
  let ?st = "st\<lparr>current_time_g := t\<rparr>"
  have en': "options_g ?st AND CO_DUMP_FILTER_SDO E \<noteq> 0" using en by simp
  have m: "multiplex E cf ?st = map_sum id (Pair 0) (dump_sdo_ul_init_res E ?msg cf ?st)"
    using multiplex_tsdo [OF cls] dump_tsdo_dispatch(1) [OF en' dist cs] by simp
  have "get_node_state (msg_id ?msg) = Some i" using node by simp
  from ul_init_step [OF this init, of ?st] obtain st1 where
    "dump_sdo_ul_init_res E ?msg cf ?st = Inr st1"
    "options_g st1 = options_g ?st" "accumulator i st1 = []"
    "active_mux i st1 = SDO_MUX E (sdo_get_index E cf) (sdo_get_subindex E cf)"
    by blast
  then show ?thesis using m by simp
qed

lemma download_round_trip:
  assumes node: "get_node_state n = Some i"
    and en: "options_g st AND CO_DUMP_FILTER_SDO E \<noteq> 0"
    and idx: "0 \<le> SDO_SEGMENT_IDX E" and dist: "sdo_enums_distinct E"
    and sd: "segmented_download E n recs"
  shows "\<exists>st3. dump_records E recs st = Inr st3 \<and>
           accumulator i st3 = concat (map (segment_payload E) (tl (map snd recs))) \<and>
           last_calls 2 st3 =
             final_calls E (snd (last recs))
               (SDO_MUX E (sdo_get_index E (snd (hd recs))) (sdo_get_subindex E (snd (hd recs))))
               (concat (map (segment_payload E) (tl (map snd recs))))"
proof -
  from sd obtain t0 init rest where recs: "recs = (t0, init) # rest"
    by (cases recs) (auto simp: segmented_download_def)
  from sd recs have rest: "rest \<noteq> []"
    and cls: "\<forall>cf \<in> set (init # map snd rest).
       canopen_get_object_type E cf = Some \<lparr>msg_object = CANOPEN_RSDO, msg_id = n\<rparr>"
    and init: "sdo_get_cs E init = SDO_CCS_DL_INIT_REQ E" "\<not> sdo_is_expediated E init"
      "sdo_is_size_indicated E init" "can_dlc init = CAN_MAX_DLC"
    and segs: "\<forall>cf \<in> set (map snd rest). sdo_get_cs E cf = SDO_CCS_DL_SEG_REQ E \<and>
       SDO_SEGMENT_IDX E \<le> uint (can_dlc cf) \<and> can_dlc cf \<le> CAN_MAX_DLC"
    and mid: "\<forall>cf \<in> set (butlast (map snd rest)). \<not> sdo_is_end_segment E cf"
    and fin: "sdo_is_end_segment E (last (map snd rest))"
    by (auto simp: segmented_download_def list_all_iff)
  obtain tl lst where lst: "last rest = (tl, lst)" by (cases "last rest")
  have split: "rest = butlast rest @ [(tl, lst)]" using rest lst by (metis append_butlast_last_id)
  have lst_in: "lst \<in> set (map snd rest)" using rest lst
    by (metis last_in_set last_map list.map_disc_iff snd_conv)
  have bl_in: "set (map snd (butlast rest)) \<subseteq> set (map snd rest)"
    by (metis in_set_butlastD map_butlast subsetI)
  have lst_end: "sdo_is_end_segment E lst" using fin rest lst by (simp add: last_map)
  let ?M = "SDO_MUX E (sdo_get_index E init) (sdo_get_subindex E init)"
  from dl_init_record_step [OF node dist en _ init, of t0] cls
  obtain st1 where st1: "multiplex E init (st\<lparr>current_time_g := t0\<rparr>) = Inr (0, st1)"
    "options_g st1 = options_g st" "accumulator i st1 = []" "active_mux i st1 = ?M"
    by auto
  have en1: "options_g st1 AND CO_DUMP_FILTER_SDO E \<noteq> 0" using st1 en by simp
  have "\<forall>cf \<in> set (map snd (butlast rest)).
      canopen_get_object_type E cf = Some \<lparr>msg_object = CANOPEN_RSDO, msg_id = n\<rparr> \<and>
      sdo_get_cs E cf = SDO_CCS_DL_SEG_REQ E \<and>
      SDO_SEGMENT_IDX E \<le> uint (can_dlc cf) \<and> can_dlc cf \<le> CAN_MAX_DLC \<and>
      \<not> sdo_is_end_segment E cf"
    using cls segs mid bl_in by (auto simp: map_butlast)
  from dl_segments_run [OF node idx dist en1 this]
  obtain st2 where st2: "dump_records E (butlast rest) st1 = Inr st2"
    "options_g st2 = options_g st1"
    "accumulator i st2 = accumulator i st1 @ concat (map (segment_payload E) (map snd (butlast rest)))"
    "active_mux i st2 = active_mux i st1"
    by blast
  have en2: "options_g st2 AND CO_DUMP_FILTER_SDO E \<noteq> 0" using st2 en1 by simp
  have l: "canopen_get_object_type E lst = Some \<lparr>msg_object = CANOPEN_RSDO, msg_id = n\<rparr>"
    "sdo_get_cs E lst = SDO_CCS_DL_SEG_REQ E"
    "SDO_SEGMENT_IDX E \<le> uint (can_dlc lst)" "can_dlc lst \<le> CAN_MAX_DLC"
    using cls segs lst_in by auto
  from dl_record_step [OF node idx dist en2 l, of tl] lst_end
  obtain st3 where st3: "multiplex E lst (st2\<lparr>current_time_g := tl\<rparr>) = Inr (0, st3)"
    "accumulator i st3 = accumulator i st2 @ segment_payload E lst"
    "last_calls 2 st3 =
       final_calls E lst (active_mux i st2) (accumulator i st2 @ segment_payload E lst)"
    by blast
  have cat: "concat (map (segment_payload E) (map snd rest)) =
      concat (map (segment_payload E) (map snd (butlast rest))) @ segment_payload E lst"
    by (subst split) simp
  have run: "dump_records E recs st = Inr st3"
    unfolding recs by (subst split) (simp add: st1 st2 st3 dump_records_append)
  have lastrec: "snd (last recs) = lst" using recs rest lst by simp
  show ?thesis
    using run st3 st2 st1 cat lastrec by (simp add: recs)
qed

lemma upload_round_trip:
  assumes node: "get_node_state n = Some i"
    and en: "options_g st AND CO_DUMP_FILTER_SDO E \<noteq> 0"
    and idx: "0 \<le> SDO_SEGMENT_IDX E" and dist: "sdo_enums_distinct E"
    and sd: "segmented_upload E n recs"
  shows "\<exists>st3. dump_records E recs st = Inr st3 \<and>
           accumulator i st3 = concat (map (segment_payload E) (tl (map snd recs))) \<and>
           last_calls 2 st3 =
             final_calls E (snd (last recs))
               (SDO_MUX E (sdo_get_index E (snd (hd recs))) (sdo_get_subindex E (snd (hd recs))))
               (concat (map (segment_payload E) (tl (map snd recs))))"
proof -
  from sd obtain t0 init rest where recs: "recs = (t0, init) # rest"
    by (cases recs) (auto simp: segmented_upload_def)
  from sd recs have rest: "rest \<noteq> []"
    and cls: "\<forall>cf \<in> set (init # map snd rest).
       canopen_get_object_type E cf = Some \<lparr>msg_object = CANOPEN_TSDO, msg_id = n\<rparr>"
    and init: "sdo_get_cs E init = SDO_SCS_UL_INIT_RES E" "\<not> sdo_is_expediated E init"
      "sdo_is_size_indicated E init" "can_dlc init = CAN_MAX_DLC"
    and segs: "\<forall>cf \<in> set (map snd rest). sdo_get_cs E cf = SDO_SCS_UL_SEG_RES E \<and>
       SDO_SEGMENT_IDX E \<le> uint (can_dlc cf) \<and> can_dlc cf \<le> CAN_MAX_DLC"
    and mid: "\<forall>cf \<in> set (butlast (map snd rest)). \<not> sdo_is_end_segment E cf"
    and fin: "sdo_is_end_segment E (last (map snd rest))"
    by (auto simp: segmented_upload_def list_all_iff)
  obtain tl lst where lst: "last rest = (tl, lst)" by (cases "last rest")
  have split: "rest = butlast rest @ [(tl, lst)]" using rest lst by (metis append_butlast_last_id)
  have lst_in: "lst \<in> set (map snd rest)" using rest lst
    by (metis last_in_set last_map list.map_disc_iff snd_conv)
  have bl_in: "set (map snd (butlast rest)) \<subseteq> set (map snd rest)"
    by (metis in_set_butlastD map_butlast subsetI)
  have lst_end: "sdo_is_end_segment E lst" using fin rest lst by (simp add: last_map)
  let ?M = "SDO_MUX E (sdo_get_index E init) (sdo_get_subindex E init)"
  from ul_init_record_step [OF node dist en _ init, of t0] cls
  obtain st1 where st1: "multiplex E init (st\<lparr>current_time_g := t0\<rparr>) = Inr (0, st1)"
    "options_g st1 = options_g st" "accumulator i st1 = []" "active_mux i st1 = ?M"
    by auto
  have en1: "options_g st1 AND CO_DUMP_FILTER_SDO E \<noteq> 0" using st1 en by simp
  have "\<forall>cf \<in> set (map snd (butlast rest)).
      canopen_get_object_type E cf = Some \<lparr>msg_object = CANOPEN_TSDO, msg_id = n\<rparr> \<and>
      sdo_get_cs E cf = SDO_SCS_UL_SEG_RES E \<and>
      SDO_SEGMENT_IDX E \<le> uint (can_dlc cf) \<and> can_dlc cf \<le> CAN_MAX_DLC \<and>
      \<not> sdo_is_end_segment E cf"
    using cls segs mid bl_in by (auto simp: map_butlast)
  from ul_segments_run [OF node idx dist en1 this]
  obtain st2 where st2: "dump_records E (butlast rest) st1 = Inr st2"
    "options_g st2 = options_g st1"
    "accumulator i st2 = accumulator i st1 @ concat (map (segment_payload E) (map snd (butlast rest)))"
    "active_mux i st2 = active_mux i st1"
    by blast
  have en2: "options_g st2 AND CO_DUMP_FILTER_SDO E \<noteq> 0" using st2 en1 by simp
  have l: "canopen_get_object_type E lst = Some \<lparr>msg_object = CANOPEN_TSDO, msg_id = n\<rparr>"
    "sdo_get_cs E lst = SDO_SCS_UL_SEG_RES E"
    "SDO_SEGMENT_IDX E \<le> uint (can_dlc lst)" "can_dlc lst \<le> CAN_MAX_DLC"
    using cls segs lst_in by auto
  from ul_record_step [OF node idx dist en2 l, of tl] lst_end
  obtain st3 where st3: "multiplex E lst (st2\<lparr>current_time_g := tl\<rparr>) = Inr (0, st3)"
    "accumulator i st3 = accumulator i st2 @ segment_payload E lst"
    "last_calls 2 st3 =
       final_calls E lst (active_mux i st2) (accumulator i st2 @ segment_payload E lst)"
    by blast
  have cat: "concat (map (segment_payload E) (map snd rest)) =
      concat (map (segment_payload E) (map snd (butlast rest))) @ segment_payload E lst"
    by (subst split) simp
  have run: "dump_records E recs st = Inr st3"
    unfolding recs by (subst split) (simp add: st1 st2 st3 dump_records_append)
  have lastrec: "snd (last recs) = lst" using recs rest lst by simp
  show ?thesis
    using run st3 st2 st1 cat lastrec by (simp add: recs)
qed

subsection \<open>Segmented transfers\<close>

text \<open>
  C3. For a node with a state entry and the SDO class enabled, a segmented transfer in
  either direction (an initiate that declares the total size in a full-length frame,
  followed by segment frames of which the last one carries the end flag) runs without a
  fault; afterwards the accumulator of the node is the concatenation of the payload slices
  of the segments in arrival order, whatever the declared size, and the last line printed
  ends with the final size and the final data rendered from that concatenation.
\<close>

theorem segmented_round_trip:
  assumes "get_node_state n = Some i"
    and "options_g st AND CO_DUMP_FILTER_SDO E \<noteq> 0"
    and "0 \<le> SDO_SEGMENT_IDX E" and "sdo_enums_distinct E"
    and "segmented_download E n recs \<or> segmented_upload E n recs"
  shows "on_state (accumulator i) (dump_records E recs st) =
           Inr (concat (map (segment_payload E) (tl (map snd recs)))) \<and>
         on_state (last_calls 2) (dump_records E recs st) =
           Inr (final_calls E (snd (last recs))
                  (SDO_MUX E (sdo_get_index E (snd (hd recs))) (sdo_get_subindex E (snd (hd recs))))
                  (concat (map (segment_payload E) (tl (map snd recs)))))"
proof -
  from assms(5) have "\<exists>st3. dump_records E recs st = Inr st3 \<and>
           accumulator i st3 = concat (map (segment_payload E) (tl (map snd recs))) \<and>
           last_calls 2 st3 =
             final_calls E (snd (last recs))
               (SDO_MUX E (sdo_get_index E (snd (hd recs))) (sdo_get_subindex E (snd (hd recs))))
               (concat (map (segment_payload E) (tl (map snd recs))))"
    using download_round_trip [OF assms(1-4)] upload_round_trip [OF assms(1-4)] by blast
  then show ?thesis by (auto simp: on_state_def)
qed

lemmas ex_frames = ex_dl_segment_init_def ex_dl_segment_init_sized_def ex_dl_segment_def
  ex_dl_segment_end_def ex_ul_segment_init_sized_def ex_ul_segment_def ex_ul_segment_end_def

lemma ex_dl: "segmented_download cia301 5 ex_download"
  by (simp add: segmented_download_def ex_download_def ex_frames cia301_sdo classify_def
      byte_at_def CAN_MAX_DLC_def)

lemma ex_ul: "segmented_upload cia301 5 ex_upload"
  by (simp add: segmented_upload_def ex_upload_def ex_frames cia301_sdo classify_def
      byte_at_def CAN_MAX_DLC_def)

theorem segmented_round_trip_witness:
  "get_node_state 5 = Some 4 \<and>
   options_g st0 AND CO_DUMP_FILTER_SDO cia301 \<noteq> 0 \<and>
   0 \<le> SDO_SEGMENT_IDX cia301 \<and> sdo_enums_distinct cia301 \<and>
   segmented_download cia301 5 ex_download \<and>
   on_state (accumulator 4) (dump_records cia301 ex_download st0) =
     Inr [0x11, 0x12, 0x13, 0x14, 0x15, 0x16, 0x17, 0x18, 0x19, 0x1A] \<and>
   on_state (last_calls 2) (dump_records cia301 ex_download st0) =
     Inr [Printf '',final-size=%d,final-data=%s''
            [ArgInt 10, ArgStr ''1112131415161718191a''],
          Printf ''%s\<newline>'' [ArgStr []]] \<and>
   segmented_upload cia301 5 ex_upload \<and>
   on_state (accumulator 4) (dump_records cia301 ex_upload st0) =
     Inr [0x43, 0x41, 0x4E, 0x6F, 0x70, 0x65, 0x6E, 0x20, 0x69, 0x6F] \<and>
   on_state (last_calls 2) (dump_records cia301 ex_upload st0) =
     Inr [Printf '',final-size=%d,final-data=%s''
            [ArgInt 10, ArgStr ([CHR 0x22] @ ''CANopen io'' @ [CHR 0x22])],
          Printf ''%s\<newline>'' [ArgStr []]]"
proof -
  have n: "get_node_state 5 = Some 4" by (simp add: get_node_state_def)
  have e: "options_g st0 AND CO_DUMP_FILTER_SDO cia301 \<noteq> 0"
    by (simp add: options_st0 cia301_filters)
  have i: "0 \<le> SDO_SEGMENT_IDX cia301" by (simp add: cia301_sdo)
  have d: "sdo_enums_distinct cia301" by (simp add: sdo_enums_distinct_def cia301_sdo)
  have p1: "concat (map (segment_payload cia301) (tl (map snd ex_download))) =
      [0x11, 0x12, 0x13, 0x14, 0x15, 0x16, 0x17, 0x18, 0x19, 0x1A]"
    by (simp add: ex_download_def ex_frames segment_payload_def cia301_sdo)
  have p2: "concat (map (segment_payload cia301) (tl (map snd ex_upload))) =
      [0x43, 0x41, 0x4E, 0x6F, 0x70, 0x65, 0x6E, 0x20, 0x69, 0x6F]"
    by (simp add: ex_upload_def ex_frames segment_payload_def cia301_sdo)
  have m1: "SDO_MUX cia301 (sdo_get_index cia301 (snd (hd ex_download)))
      (sdo_get_subindex cia301 (snd (hd ex_download))) = 0x600001"
    by (simp add: ex_download_def ex_frames cia301_sdo le_bytes_def byte_at_def)
  have m2: "SDO_MUX cia301 (sdo_get_index cia301 (snd (hd ex_upload)))
      (sdo_get_subindex cia301 (snd (hd ex_upload))) = 0x100800"
    by (simp add: ex_upload_def ex_frames cia301_sdo le_bytes_def byte_at_def)
  have f1: "final_calls cia301 (snd (last ex_download)) 0x600001
      [0x11, 0x12, 0x13, 0x14, 0x15, 0x16, 0x17, 0x18, 0x19, 0x1A] =
      [Printf '',final-size=%d,final-data=%s'' [ArgInt 10, ArgStr ''1112131415161718191a''],
       Printf ''%s\<newline>'' [ArgStr []]]"
    by (simp add: final_calls_def segment_text_def ex_download_def ex_frames CAN_RTR_FLAG_def)
       (simp add: cia301_sdo hex_bytes_def hex_digit_def)
  have f2: "final_calls cia301 (snd (last ex_upload)) 0x100800
      [0x43, 0x41, 0x4E, 0x6F, 0x70, 0x65, 0x6E, 0x20, 0x69, 0x6F] =
      [Printf '',final-size=%d,final-data=%s''
         [ArgInt 10, ArgStr ([CHR 0x22] @ ''CANopen io'' @ [CHR 0x22])],
       Printf ''%s\<newline>'' [ArgStr []]]"
    by (simp add: final_calls_def segment_text_def ex_upload_def ex_frames CAN_RTR_FLAG_def)
       (simp add: cia301_sdo c_str_def char_of_def bit_Suc_0_iff)
  show ?thesis
    using segmented_round_trip [OF n e i d disjI1 [OF ex_dl]]
      segmented_round_trip [OF n e i d disjI2 [OF ex_ul]]
    by (simp add: n e i d ex_dl ex_ul p1 p2 m1 m2 f1 f2)
qed

subsection \<open>The end of a segmented transfer\<close>

text \<open>
  C5. For a node with a state entry, a segment frame with the end flag that holds at least
  the bytes before the segment data offset and at most 8 bytes: after the chunk of the
  segment the decoder prints the whole accumulated buffer, rendered by the same rule
  \<open>segment_text\<close> and under the same multiplexer as the chunk. The download decoder then
  sets \<^verbatim>\<open>current_mux\<close> to 0; the upload decoder leaves \<^verbatim>\<open>current_mux\<close> as it was.
\<close>

theorem end_of_segment:
  assumes "get_node_state (msg_id msg) = Some i"
    and "sdo_is_end_segment E cf"
    and "0 \<le> SDO_SEGMENT_IDX E" and "SDO_SEGMENT_IDX E \<le> uint (can_dlc cf)"
    and "can_dlc cf \<le> CAN_MAX_DLC"
  shows "on_state stdout (dump_sdo_dl_seg_req E msg cf st) =
           Inr (stdout (print_ts E st) @
             Printf ''RSDO %d download-segment%s size=%d,data=%s''
               [ArgInt (msg_id msg), ArgStr ''-end'',
                ArgInt (uint (can_dlc cf) - SDO_SEGMENT_IDX E),
                ArgStr (segment_text E (active_mux i st) (segment_payload E cf))] #
             final_calls E cf (active_mux i st) (accumulator i st @ segment_payload E cf)) \<and>
         on_state (active_mux i) (dump_sdo_dl_seg_req E msg cf st) = Inr 0 \<and>
         on_state stdout (dump_sdo_ul_seg_res E msg cf st) =
           Inr (stdout (print_ts E st) @
             Printf ''TSDO %d upload-segment%s size=%d,data=%s''
               [ArgInt (msg_id msg), ArgStr ''-end'',
                ArgInt (uint (can_dlc cf) - SDO_SEGMENT_IDX E),
                ArgStr (segment_text E (active_mux i st) (segment_payload E cf))] #
             final_calls E cf (active_mux i st) (accumulator i st @ segment_payload E cf)) \<and>
         on_state (active_mux i) (dump_sdo_ul_seg_res E msg cf st) = Inr (active_mux i st)"
  using assms
  by (simp add: dump_sdo_dl_seg_req_def dump_sdo_ul_seg_res_def on_state_def Let_def
      frame_bytes_segment case_prod_unfold printf_simps printx_simps print_ts_simps
      upd_node_simps get_segment_data_simps print_final_simps stdout_printx uint_segment_size
      vector_append_def vector_reserve_def print_ts_upd_node final_calls_def active_mux_def
      accumulator_def)

lemma st_open_simps:
  "options_g st_open = 0x7FE" "stdout st_open = []"
  "active_mux 4 st_open = 0x100800" "accumulator 4 st_open = [0x43, 0x41, 0x4E]"
  by (simp_all add: st_open_def upd_node_simps options_st0 stdout_st0 active_mux_def
      accumulator_def vector_append_def vector_reserve_def)
    (simp add: st0_def co_dump_init_def resolve_filters_def node_state_init_def
      static_state_def vector_init_def)

theorem end_of_segment_witness:
  "get_node_state (msg_id rsdo5) = Some 4 \<and>
   sdo_is_end_segment cia301 ex_ul_segment_end \<and>
   0 \<le> SDO_SEGMENT_IDX cia301 \<and>
   SDO_SEGMENT_IDX cia301 \<le> uint (can_dlc ex_ul_segment_end) \<and>
   can_dlc ex_ul_segment_end \<le> CAN_MAX_DLC \<and>
   active_mux 4 st_open = 0x100800 \<and>
   on_state stdout (dump_sdo_dl_seg_req cia301 rsdo5 ex_ul_segment_end st_open) =
     Inr [Printf ''RSDO %d download-segment%s size=%d,data=%s''
            [ArgInt 5, ArgStr ''-end'', ArgInt 3, ArgStr ([CHR 0x22] @ '' io'' @ [CHR 0x22])],
          Printf '',final-size=%d,final-data=%s''
            [ArgInt 6, ArgStr ([CHR 0x22] @ ''CAN io'' @ [CHR 0x22])],
          Printf ''%s\<newline>'' [ArgStr []]] \<and>
   on_state (active_mux 4) (dump_sdo_dl_seg_req cia301 rsdo5 ex_ul_segment_end st_open) = Inr 0 \<and>
   on_state (active_mux 4) (dump_sdo_ul_seg_res cia301 rsdo5 ex_ul_segment_end st_open) =
     Inr 0x100800"
proof -
  have p: "segment_payload cia301 ex_ul_segment_end = [0x20, 0x69, 0x6F]"
    by (simp add: segment_payload_def cia301_sdo ex_ul_segment_end_def)
  have t: "segment_text cia301 0x100800 [0x20, 0x69, 0x6F] = [CHR 0x22] @ '' io'' @ [CHR 0x22]"
    "segment_text cia301 0x100800 [0x43, 0x41, 0x4E, 0x20, 0x69, 0x6F]
       = [CHR 0x22] @ ''CAN io'' @ [CHR 0x22]"
    by (simp_all add: segment_text_def cia301_sdo c_str_def char_of_def bit_Suc_0_iff)
  have ts: "print_ts cia301 st_open = st_open"
    by (simp add: print_ts_def st_open_simps cia301_filters)
  show ?thesis
    using end_of_segment [of rsdo5 4 cia301 ex_ul_segment_end st_open]
    by (simp add: p t ts st_open_simps final_calls_def)
      (simp add: rsdo5_def get_node_state_def cia301_sdo ex_ul_segment_end_def byte_at_def
        CAN_MAX_DLC_def CAN_RTR_FLAG_def)
qed

subsection \<open>The start of a segmented transfer\<close>





subsection \<open>Frames of a node without a state entry\<close>

text \<open>
  C1. Two decoders use \<^verbatim>\<open>state\<close> without testing it, and the claim fails for them. The
  transmit-SDO frame with identifier 0x580 is classified as node 0, which has
  no state entry; it is the expedited upload response for object 0x1000 subindex 0, and
  \<^verbatim>\<open>dump_sdo_ul_init_res\<close> passes \<^verbatim>\<open>&state->device_type\<close> of the null pointer to
  \<^verbatim>\<open>byteorder2\<close>. \<^verbatim>\<open>dump_emcy\<close>, when the classifier gives it the node id 0 and the
  frame has a payload, reads \<^verbatim>\<open>state->device_type\<close> of the null pointer.
\<close>

theorem node_without_state_faults:
  "canopen_get_object_type cia301 ex_ul_device_type_node0
     = Some \<lparr>msg_object = CANOPEN_TSDO, msg_id = 0\<rparr> \<and>
   get_node_state 0 = None \<and>
   multiplex cia301 ex_ul_device_type_node0 st0 = Inl NullDeref \<and>
   dump_emcy cia301 emcy0 ex_emcy st0 = Inl NullDeref"
proof -
  have c: "canopen_get_object_type cia301 ex_ul_device_type_node0
      = Some \<lparr>msg_object = CANOPEN_TSDO, msg_id = 0\<rparr>"
    by (simp add: cia301_sdo classify_def ex_ul_device_type_node0_def)
  have n: "get_node_state 0 = None" by (simp add: get_node_state_def)
  have e: "options_g st0 AND CO_DUMP_FILTER_SDO cia301 \<noteq> 0"
    "options_g st0 AND CO_DUMP_FILTER_EMCY cia301 \<noteq> 0"
    by (simp_all add: options_st0 cia301_filters)
  have f: "sdo_get_cs cia301 ex_ul_device_type_node0 = 2"
    "sdo_is_expediated cia301 ex_ul_device_type_node0"
    "sdo_get_index cia301 ex_ul_device_type_node0 = 0x1000"
    "sdo_get_subindex cia301 ex_ul_device_type_node0 = 0"
    by (simp_all add: cia301_sdo ex_ul_device_type_node0_def byte_at_def le_bytes_def)
  have t: "dump_tsdo cia301 \<lparr>msg_object = CANOPEN_TSDO, msg_id = 0\<rparr> ex_ul_device_type_node0 st0
      = Inl NullDeref"
    using e(1) f n
    by (simp add: dump_tsdo_def dump_sdo_ul_init_res_def Let_def cia301_sdo)
  have m: "multiplex cia301 ex_ul_device_type_node0 st0 = Inl NullDeref"
    using multiplex_tsdo [OF c] t by simp
  have d: "dump_emcy cia301 emcy0 ex_emcy st0 = Inl NullDeref"
    using e(2) n by (simp add: dump_emcy_def Let_def emcy0_def ex_emcy_def)
  show ?thesis using c n m d by simp
qed

subsection \<open>The line of an initiate without size\<close>

text \<open>
  C6. The claim fails for an initiate that is neither expedited nor size-indicated in a
  full-length frame: \<^verbatim>\<open>dump_sdo_dl_init_req\<close> prints the head of the line with \<^verbatim>\<open>printf\<close>
  and returns without a call of \<^verbatim>\<open>printx\<close>, so the line has no remote-request marker and
  no end. The same holds for \<^verbatim>\<open>dump_sdo_ul_init_res\<close>.
\<close>

theorem unsized_initiate_line_not_ended:
  "on_state stdout (dump_rsdo cia301 rsdo5 ex_dl_segment_init st0) =
     Inr [Printf ''RSDO %d init-download-%s index=%x,subindex=%d''
            [ArgInt 5, ArgStr ''segment'', ArgInt 0x6000, ArgInt 1]] \<and>
   on_state stdout (dump_tsdo cia301 tsdo5 ex_ul_segment_init st0) =
     Inr [Printf ''TSDO %d init-upload-%s index=%x,subindex=%d''
            [ArgInt 5, ArgStr ''segment'', ArgInt 0x1008, ArgInt 0]]"
proof -
  have e: "options_g st0 AND CO_DUMP_FILTER_SDO cia301 \<noteq> 0"
    "options_g st0 AND CO_DUMP_TIMESTAMP cia301 = 0"
    by (simp_all add: options_st0 cia301_filters)
  have f: "sdo_get_cs cia301 ex_dl_segment_init = 1"
    "\<not> sdo_is_expediated cia301 ex_dl_segment_init"
    "\<not> sdo_is_size_indicated cia301 ex_dl_segment_init"
    "sdo_get_index cia301 ex_dl_segment_init = 0x6000"
    "sdo_get_subindex cia301 ex_dl_segment_init = 1"
    by (simp_all add: cia301_sdo ex_dl_segment_init_def byte_at_def le_bytes_def)
  have g: "sdo_get_cs cia301 ex_ul_segment_init = 2"
    "\<not> sdo_is_expediated cia301 ex_ul_segment_init"
    "\<not> sdo_is_size_indicated cia301 ex_ul_segment_init"
    "sdo_get_index cia301 ex_ul_segment_init = 0x1008"
    "sdo_get_subindex cia301 ex_ul_segment_init = 0"
    by (simp_all add: cia301_sdo ex_ul_segment_init_def byte_at_def le_bytes_def)
  have a: "on_state stdout (dump_rsdo cia301 rsdo5 ex_dl_segment_init st0) =
     Inr [Printf ''RSDO %d init-download-%s index=%x,subindex=%d''
            [ArgInt 5, ArgStr ''segment'', ArgInt 0x6000, ArgInt 1]]"
    using e f
    by (simp add: dump_rsdo_def dump_sdo_dl_init_req_def on_state_def Let_def cia301_sdo
        rsdo5_def get_node_state_def printf_simps print_ts_def upd_node_simps stdout_st0
        split: option.split)
  have b: "on_state stdout (dump_tsdo cia301 tsdo5 ex_ul_segment_init st0) =
     Inr [Printf ''TSDO %d init-upload-%s index=%x,subindex=%d''
            [ArgInt 5, ArgStr ''segment'', ArgInt 0x1008, ArgInt 0]]"
    using e g
    by (simp add: dump_tsdo_def dump_sdo_ul_init_res_def on_state_def Let_def cia301_sdo
        tsdo5_def get_node_state_def printf_simps print_ts_def upd_node_simps stdout_st0
        split: option.split)
  show ?thesis using a b by simp
qed

end
